theory Spec2Isabelle
  imports Complex_Main "HOL-Library.Word" "HOL-Library.Multiset" "HOL-Library.Log_Nat"
begin

section \<open>JavaScript strings\<close>

text \<open>
  A JavaScript string is a sequence of UTF-16 code units. The category labels and
  the feedback messages of the page are Korean text, and \<open>String.prototype.trim\<close>
  removes code units beyond ASCII, so strings are lists of 16-bit words rather than
  lists of bytes.
\<close>

type_synonym jschar = "16 word"
type_synonym jsstring = "jschar list"

definition ascii :: "string \<Rightarrow> jsstring" where
  "ascii s = map (\<lambda>c. of_nat (of_char c)) s"

text \<open>
  ECMAScript \<open>WhiteSpace\<close> and \<open>LineTerminator\<close> code points (all of them lie in
  the basic multilingual plane): TAB, LF, VT, FF, CR, SP, NBSP, the space
  separators of category Zs, LS, PS and the byte order mark.
\<close>

definition isWhiteSpace :: "jschar \<Rightarrow> bool" where
  "isWhiteSpace c \<longleftrightarrow>
     c \<in> set [0x0009, 0x000A, 0x000B, 0x000C, 0x000D, 0x0020, 0x00A0, 0x1680,
              0x2000, 0x2001, 0x2002, 0x2003, 0x2004, 0x2005, 0x2006, 0x2007,
              0x2008, 0x2009, 0x200A, 0x2028, 0x2029, 0x202F, 0x205F, 0x3000, 0xFEFF]"

definition trim :: "jsstring \<Rightarrow> jsstring" where
  "trim s = rev (dropWhile isWhiteSpace (rev (dropWhile isWhiteSpace s)))"


section \<open>Domain model\<close>

text \<open>\<^verbatim>\<open>type Priority = "low" | "medium" | "high"\<close>\<close>

datatype Priority = Low | Medium | High

text \<open>
  \<^verbatim>\<open>interface Todo { id; text; category; priority; dueDate; completed }\<close>
  The fields \<open>id\<close> and \<open>text\<close> carry a prime because the plain names are taken.
\<close>

record Todo =
  id' :: jsstring
  text' :: jsstring
  category :: jsstring
  priority :: Priority
  dueDate :: jsstring
  completed :: bool

text \<open>
  \<open>categoryOptions\<close>: the four \<open>{ value, label }\<close> pairs
  (U+C5C5 U+BB34, U+AC1C U+C778, U+D559 U+C2B5, U+AE30 U+D0C0).
\<close>

definition categoryOptions :: "(jsstring \<times> jsstring) list" where
  "categoryOptions =
     [([0xC5C5, 0xBB34], [0xC5C5, 0xBB34]),
      ([0xAC1C, 0xC778], [0xAC1C, 0xC778]),
      ([0xD559, 0xC2B5], [0xD559, 0xC2B5]),
      ([0xAE30, 0xD0C0], [0xAE30, 0xD0C0])]"

definition categoryValues :: "jsstring list" where
  "categoryValues = map fst categoryOptions"

text \<open>\<^verbatim>\<open>type FilterType = "all" | "completed" | "pending"\<close>\<close>

datatype FilterType = FilterAll | FilterCompleted | FilterPending

text \<open>\<^verbatim>\<open>type SortType = "date" | "priority" | "category" | "name"\<close>\<close>

datatype SortType = SortDate | SortPriority | SortCategory | SortName


section \<open>Numbers\<close>











section \<open>Derived view\<close>

subsection \<open>Counts and completion percentage\<close>

definition completedCount :: "Todo list \<Rightarrow> nat" where
  "completedCount ts = length (filter (\<lambda>todo. completed todo) ts)"

definition pendingCount :: "Todo list \<Rightarrow> nat" where
  "pendingCount ts = length (filter (\<lambda>todo. \<not> completed todo) ts)"




subsection \<open>Per-category statistics\<close>

text \<open>\<^verbatim>\<open>{ total: number; completed: number }\<close>\<close>

record CategoryStat =
  total' :: nat
  completed' :: nat

text \<open>
  \<open>stats\<close> is a plain object used as a dictionary, here an association list in
  insertion order. Reading \<open>stats[key]\<close> finds an own property, or else a property
  inherited from \<open>Object.prototype\<close>, or else \<open>undefined\<close>. The inherited
  properties are the standard ones below; all of them are objects.
\<close>

type_synonym Stats = "(jsstring \<times> CategoryStat) list"

definition Object_prototype_keys :: "jsstring list" where
  "Object_prototype_keys = map ascii
     [''constructor'', ''__proto__'', ''hasOwnProperty'', ''isPrototypeOf'',
      ''propertyIsEnumerable'', ''toLocaleString'', ''toString'', ''valueOf'',
      ''__defineGetter__'', ''__defineSetter__'', ''__lookupGetter__'',
      ''__lookupSetter__'']"

datatype Property = Own CategoryStat | Inherited | Undefined

definition get_property :: "Stats \<Rightarrow> jsstring \<Rightarrow> Property" where
  "get_property stats key =
     (case map_of stats key of
        Some r \<Rightarrow> Own r
      | None \<Rightarrow> if key \<in> set Object_prototype_keys then Inherited else Undefined)"

datatype TypeError = TypeError

text \<open>
  \<^verbatim>\<open>categoryOptions.forEach((cat) => { stats[cat.value] = { total: 0, completed: 0 } })\<close>
\<close>

definition initial_stats :: Stats where
  "initial_stats = map (\<lambda>cat. (fst cat, \<lparr>total' = 0, completed' = 0\<rparr>)) categoryOptions"

text \<open>
  One round of \<open>todos.forEach\<close>:
  \<^verbatim>\<open>stats[todo.category].total++; if (todo.completed) stats[todo.category].completed++\<close>
  On \<open>undefined\<close> the property access throws a TypeError. On an inherited
  object the increment stores NaN in a property of that object and the own
  entries of \<open>stats\<close> stay as they are.
\<close>

definition count_todo :: "Todo \<Rightarrow> Stats \<Rightarrow> TypeError + Stats" where
  "count_todo todo stats =
     (case get_property stats (category todo) of
        Undefined \<Rightarrow> Inl TypeError
      | Inherited \<Rightarrow> Inr stats
      | Own r \<Rightarrow>
          Inr (map (\<lambda>(k, v). if k = category todo
                      then (k, \<lparr>total' = total' r + 1,
                               completed' =
                                 (if completed todo then completed' r + 1 else completed' r)\<rparr>)
                      else (k, v)) stats))"

fun forEach_count :: "Todo list \<Rightarrow> Stats \<Rightarrow> TypeError + Stats" where
  "forEach_count [] stats = Inr stats"
| "forEach_count (todo # rest) stats =
     (case count_todo todo stats of
        Inl e \<Rightarrow> Inl e
      | Inr stats' \<Rightarrow> forEach_count rest stats')"

definition categoryStats :: "Todo list \<Rightarrow> TypeError + Stats" where
  "categoryStats ts = forEach_count ts initial_stats"


text \<open>The sums of the \<open>total\<close> and of the \<open>completed\<close> counters over all entries.\<close>

definition total_sum :: "Stats \<Rightarrow> nat" where
  "total_sum stats = sum_list (map (\<lambda>(k, v). total' v) stats)"

definition completed_sum :: "Stats \<Rightarrow> nat" where
  "completed_sum stats = sum_list (map (\<lambda>(k, v). completed' v) stats)"


subsection \<open>Filtering and sorting\<close>

text \<open>
  A comparator returns a Number; \<open>None\<close> stands for NaN. Timestamps are integers
  of magnitude at most \<open>8.64e15\<close>, so the sign of the rounded difference of two of
  them is the sign of the exact difference.

  \<open>new Date(s).getTime()\<close> and \<open>String.prototype.localeCompare\<close> belong to the
  host; they are parameters \<open>getTime\<close> (\<open>None\<close> for an invalid date) and
  \<open>localeCompare\<close>.
\<close>

fun priorityOrder :: "Priority \<Rightarrow> int" where
  "priorityOrder High = 3"
| "priorityOrder Medium = 2"
| "priorityOrder Low = 1"

fun compareTodos ::
  "(jsstring \<Rightarrow> int option) \<Rightarrow> (jsstring \<Rightarrow> jsstring \<Rightarrow> int) \<Rightarrow> SortType \<Rightarrow>
   Todo \<Rightarrow> Todo \<Rightarrow> int option" where
  "compareTodos getTime localeCompare SortPriority a b =
     Some (priorityOrder (priority b) - priorityOrder (priority a))"
| "compareTodos getTime localeCompare SortCategory a b =
     Some (localeCompare (category a) (category b))"
| "compareTodos getTime localeCompare SortName a b =
     Some (localeCompare (text' a) (text' b))"
| "compareTodos getTime localeCompare SortDate a b =
     (if dueDate a = [] \<and> dueDate b = [] then Some 0
      else if dueDate a = [] then Some 1
      else if dueDate b = [] then Some (- 1)
      else case (getTime (dueDate a), getTime (dueDate b)) of
             (Some ta, Some tb) \<Rightarrow> Some (ta - tb)
           | _ \<Rightarrow> None)"

text \<open>ECMAScript \<open>SortCompare\<close>: a comparator result of NaN counts as \<open>+0\<close>.\<close>

definition SortCompare :: "('a \<Rightarrow> 'a \<Rightarrow> int option) \<Rightarrow> 'a \<Rightarrow> 'a \<Rightarrow> int" where
  "SortCompare comparefn x y = (case comparefn x y of None \<Rightarrow> 0 | Some v \<Rightarrow> v)"

text \<open>
  \<open>Array.prototype.sort\<close> is stable; for a consistent comparator the language
  fixes the result, and it is the one stable insertion sort produces. For an
  inconsistent comparator (the date comparator when a non-empty due date is no
  date and the comparison gives NaN) the order is left to the engine, and the
  insertion sort below gives one possible order, not necessarily the engine's.
\<close>

fun sort_insert :: "('a \<Rightarrow> 'a \<Rightarrow> int option) \<Rightarrow> 'a \<Rightarrow> 'a list \<Rightarrow> 'a list" where
  "sort_insert comparefn x [] = [x]"
| "sort_insert comparefn x (y # ys) =
     (if SortCompare comparefn x y \<le> 0 then x # y # ys
      else y # sort_insert comparefn x ys)"

definition array_sort :: "('a \<Rightarrow> 'a \<Rightarrow> int option) \<Rightarrow> 'a list \<Rightarrow> 'a list" where
  "array_sort comparefn xs = foldr (sort_insert comparefn) xs []"

definition status_filter :: "FilterType \<Rightarrow> Todo list \<Rightarrow> Todo list" where
  "status_filter f ts =
     (if f = FilterCompleted then filter (\<lambda>todo. completed todo) ts
      else if f = FilterPending then filter (\<lambda>todo. \<not> completed todo) ts
      else ts)"

definition category_filter :: "jsstring \<Rightarrow> Todo list \<Rightarrow> Todo list" where
  "category_filter categoryFilter ts =
     (if categoryFilter \<noteq> ascii ''all''
      then filter (\<lambda>todo. category todo = categoryFilter) ts
      else ts)"

text \<open>The value of \<open>filteredAndSortedTodos\<close>.\<close>

definition filteredAndSortedTodos ::
  "(jsstring \<Rightarrow> int option) \<Rightarrow> (jsstring \<Rightarrow> jsstring \<Rightarrow> int) \<Rightarrow>
   Todo list \<Rightarrow> FilterType \<Rightarrow> jsstring \<Rightarrow> SortType \<Rightarrow> Todo list" where
  "filteredAndSortedTodos getTime localeCompare ts f categoryFilter sortBy =
     array_sort (compareTodos getTime localeCompare sortBy)
       (category_filter categoryFilter (status_filter f ts))"

text \<open>
  The same computation with its effects: arrays live in a store, \<open>[...todos]\<close> and
  \<open>filter\<close> allocate a new array, and \<open>sort\<close> rearranges in place the array it is
  called on and returns it.
\<close>

type_synonym ref = nat

record Store =
  arrays :: "ref \<Rightarrow> Todo list option"
  fresh :: ref

definition alloc :: "Todo list \<Rightarrow> Store \<Rightarrow> ref \<times> Store" where
  "alloc xs h = (fresh h, h\<lparr>arrays := (arrays h)(fresh h \<mapsto> xs), fresh := Suc (fresh h)\<rparr>)"

definition spread_copy :: "ref \<Rightarrow> Store \<Rightarrow> (ref \<times> Store) option" where
  "spread_copy r h = (case arrays h r of None \<Rightarrow> None | Some xs \<Rightarrow> Some (alloc xs h))"

definition filter_alloc :: "(Todo \<Rightarrow> bool) \<Rightarrow> ref \<Rightarrow> Store \<Rightarrow> (ref \<times> Store) option" where
  "filter_alloc P r h =
     (case arrays h r of None \<Rightarrow> None | Some xs \<Rightarrow> Some (alloc (filter P xs) h))"

definition sort_in_place ::
  "(Todo \<Rightarrow> Todo \<Rightarrow> int option) \<Rightarrow> ref \<Rightarrow> Store \<Rightarrow> (ref \<times> Store) option" where
  "sort_in_place comparefn r h =
     (case arrays h r of
        None \<Rightarrow> None
      | Some xs \<Rightarrow> Some (r, h\<lparr>arrays := (arrays h)(r \<mapsto> array_sort comparefn xs)\<rparr>))"

definition filteredAndSortedTodos_store ::
  "(jsstring \<Rightarrow> int option) \<Rightarrow> (jsstring \<Rightarrow> jsstring \<Rightarrow> int) \<Rightarrow>
   ref \<Rightarrow> FilterType \<Rightarrow> jsstring \<Rightarrow> SortType \<Rightarrow> Store \<Rightarrow> (ref \<times> Store) option" where
  "filteredAndSortedTodos_store getTime localeCompare todos_ref f categoryFilter sortBy h =
     (case spread_copy todos_ref h of
        None \<Rightarrow> None
      | Some (filtered0, h0) \<Rightarrow>
          (case (if f = FilterCompleted then filter_alloc (\<lambda>todo. completed todo) filtered0 h0
                 else if f = FilterPending
                   then filter_alloc (\<lambda>todo. \<not> completed todo) filtered0 h0
                 else Some (filtered0, h0)) of
             None \<Rightarrow> None
           | Some (filtered1, h1) \<Rightarrow>
               (case (if categoryFilter \<noteq> ascii ''all''
                      then filter_alloc (\<lambda>todo. category todo = categoryFilter) filtered1 h1
                      else Some (filtered1, h1)) of
                  None \<Rightarrow> None
                | Some (filtered2, h2) \<Rightarrow>
                    sort_in_place (compareTodos getTime localeCompare sortBy) filtered2 h2)))"


section \<open>Local variant: state and mutations\<close>

text \<open>\<^verbatim>\<open>Omit<Todo, "id" | "completed">\<close>, the shape of \<open>form\<close> and \<open>editForm\<close>.\<close>

record TodoForm =
  form_text :: jsstring
  form_category :: jsstring
  form_priority :: Priority
  form_dueDate :: jsstring

datatype Field = FieldCategory | FieldPriority | FieldDueDate

text \<open>\<^verbatim>\<open>{ id: string; field: "category" | "priority" | "dueDate" }\<close>\<close>

datatype FieldEditing = FieldEditing (edit_id: jsstring) (edit_field: Field)

text \<open>The \<open>useState\<close> cells of the component \<open>Home\<close>.\<close>

record Home =
  todos :: "Todo list"
  form :: TodoForm
  editingId :: "jsstring option"
  editForm :: TodoForm
  filter' :: FilterType
  categoryFilter :: jsstring
  sortBy :: SortType
  fieldEditing :: "FieldEditing option"
  fieldEditValue :: jsstring

definition empty_form :: TodoForm where
  "empty_form = \<lparr>form_text = [], form_category = fst (hd categoryOptions),
                  form_priority = Medium, form_dueDate = []\<rparr>"

text \<open>
  At run time a Priority is one of the strings \<open>"low"\<close>, \<open>"medium"\<close>, \<open>"high"\<close>.
  \<open>fieldEditValue\<close> is a string; \<open>startFieldEditing\<close> stores the priority in it
  and \<open>saveFieldEditing\<close> reads it back with the unchecked cast
  \<open>fieldEditValue as Priority\<close>. The value comes from \<open>todo.priority\<close> or from a
  select over \<open>priorityOptions\<close>. A string that is none of the three has no
  counterpart in the type \<open>Priority\<close>; for it \<open>set_field\<close> keeps the old priority.
\<close>

fun Priority_string :: "Priority \<Rightarrow> jsstring" where
  "Priority_string Low = ascii ''low''"
| "Priority_string Medium = ascii ''medium''"
| "Priority_string High = ascii ''high''"

definition as_Priority :: "jsstring \<Rightarrow> Priority option" where
  "as_Priority v =
     (if v = ascii ''low'' then Some Low
      else if v = ascii ''medium'' then Some Medium
      else if v = ascii ''high'' then Some High
      else None)"

text \<open>\<^verbatim>\<open>{ ...todo, [field]: value }\<close>\<close>

fun set_field :: "Field \<Rightarrow> jsstring \<Rightarrow> Todo \<Rightarrow> Todo" where
  "set_field FieldCategory v todo = todo\<lparr>category := v\<rparr>"
| "set_field FieldPriority v todo =
     (case as_Priority v of Some p \<Rightarrow> todo\<lparr>priority := p\<rparr> | None \<Rightarrow> todo)"
| "set_field FieldDueDate v todo = todo\<lparr>dueDate := v\<rparr>"

text \<open>\<open>addTodo\<close>; the result of \<open>crypto.randomUUID()\<close> is the parameter \<open>uuid\<close>.\<close>

definition addTodo :: "jsstring \<Rightarrow> Home \<Rightarrow> Home" where
  "addTodo uuid s =
     (if trim (form_text (form s)) = [] then s
      else let newTodo = \<lparr>id' = uuid, text' = trim (form_text (form s)),
                          category = form_category (form s),
                          priority = form_priority (form s),
                          dueDate = form_dueDate (form s), completed = False\<rparr>
           in s\<lparr>todos := todos s @ [newTodo], form := empty_form\<rparr>)"

definition toggleTodo :: "jsstring \<Rightarrow> Home \<Rightarrow> Home" where
  "toggleTodo i s =
     s\<lparr>todos := map (\<lambda>todo. if id' todo = i then todo\<lparr>completed := \<not> completed todo\<rparr>
                             else todo) (todos s)\<rparr>"

definition deleteTodo :: "jsstring \<Rightarrow> Home \<Rightarrow> Home" where
  "deleteTodo i s =
     (let s1 = s\<lparr>todos := filter (\<lambda>todo. id' todo \<noteq> i) (todos s)\<rparr>
      in if editingId s = Some i then s1\<lparr>editingId := None\<rparr> else s1)"

definition startEditing :: "Todo \<Rightarrow> Home \<Rightarrow> Home" where
  "startEditing todo s =
     s\<lparr>editingId := Some (id' todo),
       editForm := \<lparr>form_text = text' todo, form_category = category todo,
                    form_priority = priority todo, form_dueDate = dueDate todo\<rparr>\<rparr>"

definition cancelEditing :: "Home \<Rightarrow> Home" where
  "cancelEditing s = s\<lparr>editingId := None\<rparr>"

definition apply_editForm :: "TodoForm \<Rightarrow> Todo \<Rightarrow> Todo" where
  "apply_editForm e todo =
     todo\<lparr>text' := trim (form_text e), category := form_category e,
          priority := form_priority e, dueDate := form_dueDate e\<rparr>"

definition saveEditing :: "jsstring \<Rightarrow> Home \<Rightarrow> Home" where
  "saveEditing i s =
     (if trim (form_text (editForm s)) = [] then s
      else s\<lparr>todos := map (\<lambda>todo. if id' todo = i then apply_editForm (editForm s) todo
                                  else todo) (todos s),
             editingId := None\<rparr>)"

definition startFieldEditing :: "Todo \<Rightarrow> Field \<Rightarrow> Home \<Rightarrow> Home" where
  "startFieldEditing todo field s =
     s\<lparr>fieldEditing := Some (FieldEditing (id' todo) field),
       fieldEditValue :=
         (if field = FieldCategory then category todo
          else if field = FieldPriority then Priority_string (priority todo)
          else dueDate todo)\<rparr>"

definition cancelFieldEditing :: "Home \<Rightarrow> Home" where
  "cancelFieldEditing s = s\<lparr>fieldEditing := None, fieldEditValue := []\<rparr>"

definition saveFieldEditing :: "Home \<Rightarrow> Home" where
  "saveFieldEditing s =
     (case fieldEditing s of
        None \<Rightarrow> s
      | Some (FieldEditing i field) \<Rightarrow>
          s\<lparr>todos := map (\<lambda>todo. if id' todo = i then set_field field (fieldEditValue s) todo
                                 else todo) (todos s),
            fieldEditing := None, fieldEditValue := []\<rparr>)"


section \<open>Persisted variant: state and mutations\<close>

datatype FeedbackType = FeedbackError | FeedbackSuccess

text \<open>\<^verbatim>\<open>type FeedbackMessage = { type: "error" | "success"; message: string }\<close>\<close>

record FeedbackMessage =
  type' :: FeedbackType
  message :: jsstring

datatype AuthMode = Signin | Signup

text \<open>
  The persisted page has the cells of the local one and eight more. The type of
  a session belongs to the client library and is a parameter.
\<close>

record 'session HomePersisted = Home +
  isLoading :: bool
  isSubmitting :: bool
  feedback :: "FeedbackMessage option"
  session :: "'session option"
  authEmail :: jsstring
  authPassword :: jsstring
  authMode :: AuthMode
  authLoading :: bool

text \<open>A row of the remote table \<open>todos\<close>; \<open>due_date\<close> is nullable.\<close>

record Row =
  row_id :: jsstring
  row_text :: jsstring
  row_category :: jsstring
  row_priority :: Priority
  due_date :: "jsstring option"
  row_completed :: bool

definition mapRowToTodo :: "Row \<Rightarrow> Todo" where
  "mapRowToTodo row =
     \<lparr>id' = row_id row, text' = row_text row, category = row_category row,
      priority = row_priority row,
      dueDate = (case due_date row of None \<Rightarrow> [] | Some d \<Rightarrow> d),
      completed = row_completed row\<rparr>"

text \<open>\<open>value || null\<close> on a string.\<close>

definition or_null :: "jsstring \<Rightarrow> jsstring option" where
  "or_null v = (if v = [] then None else Some v)"

record InsertPayload =
  ins_text :: jsstring
  ins_category :: jsstring
  ins_priority :: Priority
  ins_due_date :: "jsstring option"
  ins_completed :: bool

datatype UpdatePayload =
  UpdateCompleted bool
| UpdateTodo jsstring jsstring Priority "jsstring option"
| UpdateDueDate "jsstring option"
| UpdateField Field jsstring

text \<open>
  The remote store is a parameter: the answer of \<open>insert(...).select("*").single()\<close>,
  of \<open>update(...).eq("id", id)\<close> and of \<open>delete().eq("id", id)\<close> to each request,
  \<open>Inl\<close> carrying the error of the client library.
\<close>

record 'e Supabase =
  insert_todo :: "InsertPayload \<Rightarrow> 'e + Row"
  update_todo :: "UpdatePayload \<Rightarrow> jsstring \<Rightarrow> 'e + unit"
  delete_todo :: "jsstring \<Rightarrow> 'e + unit"

definition msg_add_needs_login :: jsstring where
  "msg_add_needs_login =
    [0xB85C, 0xADF8, 0xC778, 0x0020, 0xD6C4, 0x0020, 0xD560, 0xC77C, 0xC744, 0x0020,
     0xCD94, 0xAC00, 0xD560, 0x0020, 0xC218, 0x0020, 0xC788, 0xC2B5, 0xB2C8, 0xB2E4,
     0x002E]"

text \<open>The tail shared by the failure messages (U+0020 U+C7A0 U+C2DC ...).\<close>

definition msg_try_again :: jsstring where
  "msg_try_again =
    [0x0020, 0xC7A0, 0xC2DC, 0x0020, 0xD6C4, 0x0020, 0xB2E4, 0xC2DC, 0x0020, 0xC2DC,
     0xB3C4, 0xD574, 0xC8FC, 0xC138, 0xC694, 0x002E]"

definition msg_add_failed :: jsstring where
  "msg_add_failed =
    [0xD560, 0xC77C, 0xC744, 0x0020, 0xCD94, 0xAC00, 0xD558, 0xC9C0, 0x0020, 0xBABB,
     0xD588, 0xC2B5, 0xB2C8, 0xB2E4, 0x002E] @ msg_try_again"

definition msg_toggle_failed :: jsstring where
  "msg_toggle_failed =
    [0xC0C1, 0xD0DC, 0xB97C, 0x0020, 0xBCC0, 0xACBD, 0xD558, 0xC9C0, 0x0020, 0xBABB,
     0xD588, 0xC2B5, 0xB2C8, 0xB2E4, 0x002E] @ msg_try_again"

definition msg_delete_failed :: jsstring where
  "msg_delete_failed =
    [0xD560, 0xC77C, 0xC744, 0x0020, 0xC0AD, 0xC81C, 0xD558, 0xC9C0, 0x0020, 0xBABB,
     0xD588, 0xC2B5, 0xB2C8, 0xB2E4, 0x002E] @ msg_try_again"

definition msg_edit_failed :: jsstring where
  "msg_edit_failed =
    [0xD560, 0xC77C, 0xC744, 0x0020, 0xC218, 0xC815, 0xD558, 0xC9C0, 0x0020, 0xBABB,
     0xD588, 0xC2B5, 0xB2C8, 0xB2E4, 0x002E] @ msg_try_again"

definition msg_field_failed :: jsstring where
  "msg_field_failed =
    [0xD544, 0xB4DC, 0xB97C, 0x0020, 0xC218, 0xC815, 0xD558, 0xC9C0, 0x0020, 0xBABB,
     0xD588, 0xC2B5, 0xB2C8, 0xB2E4, 0x002E] @ msg_try_again"

text \<open>
  \<open>reportError\<close> writes to the console and sets the feedback; only the state is
  modelled.
\<close>

definition reportError ::
  "jsstring \<Rightarrow> ('s, 'z) HomePersisted_scheme \<Rightarrow> ('s, 'z) HomePersisted_scheme" where
  "reportError m s = s\<lparr>feedback := Some \<lparr>type' = FeedbackError, message = m\<rparr>\<rparr>"

definition insert_payload :: "TodoForm \<Rightarrow> InsertPayload" where
  "insert_payload f =
     \<lparr>ins_text = trim (form_text f), ins_category = form_category f,
      ins_priority = form_priority f, ins_due_date = or_null (form_dueDate f),
      ins_completed = False\<rparr>"

definition addTodo_persisted ::
  "'e Supabase \<Rightarrow> 's HomePersisted \<Rightarrow> 's HomePersisted" where
  "addTodo_persisted db s =
     (if session s = None then reportError msg_add_needs_login s
      else if trim (form_text (form s)) = [] \<or> isSubmitting s then s
      else case insert_todo db (insert_payload (form s)) of
             Inl error \<Rightarrow> (reportError msg_add_failed s)\<lparr>isSubmitting := False\<rparr>
           | Inr data \<Rightarrow>
               s\<lparr>todos := mapRowToTodo data # todos s, form := empty_form,
                 feedback := None, isSubmitting := False\<rparr>)"

definition toggleTodo_persisted ::
  "'e Supabase \<Rightarrow> jsstring \<Rightarrow> bool \<Rightarrow> 's HomePersisted \<Rightarrow> 's HomePersisted" where
  "toggleTodo_persisted db i c s =
     (if session s = None then s
      else case update_todo db (UpdateCompleted (\<not> c)) i of
             Inl error \<Rightarrow> reportError msg_toggle_failed s
           | Inr _ \<Rightarrow>
               s\<lparr>todos := map (\<lambda>todo. if id' todo = i then todo\<lparr>completed := \<not> c\<rparr>
                                      else todo) (todos s)\<rparr>)"

definition deleteTodo_persisted ::
  "'e Supabase \<Rightarrow> jsstring \<Rightarrow> 's HomePersisted \<Rightarrow> 's HomePersisted" where
  "deleteTodo_persisted db i s =
     (if session s = None then s
      else case delete_todo db i of
             Inl error \<Rightarrow> reportError msg_delete_failed s
           | Inr _ \<Rightarrow>
               (let s1 = s\<lparr>todos := filter (\<lambda>todo. id' todo \<noteq> i) (todos s)\<rparr>
                in if editingId s = Some i then s1\<lparr>editingId := None\<rparr> else s1))"

definition edit_payload :: "TodoForm \<Rightarrow> UpdatePayload" where
  "edit_payload e =
     UpdateTodo (trim (form_text e)) (form_category e) (form_priority e)
       (or_null (form_dueDate e))"

definition saveEditing_persisted ::
  "'e Supabase \<Rightarrow> jsstring \<Rightarrow> 's HomePersisted \<Rightarrow> 's HomePersisted" where
  "saveEditing_persisted db i s =
     (if session s = None then s
      else if trim (form_text (editForm s)) = [] then s
      else case update_todo db (edit_payload (editForm s)) i of
             Inl error \<Rightarrow> reportError msg_edit_failed s
           | Inr _ \<Rightarrow>
               s\<lparr>todos := map (\<lambda>todo. if id' todo = i then apply_editForm (editForm s) todo
                                      else todo) (todos s),
                 editingId := None\<rparr>)"

definition field_payload :: "Field \<Rightarrow> jsstring \<Rightarrow> UpdatePayload" where
  "field_payload field v =
     (if field = FieldDueDate then UpdateDueDate (or_null v) else UpdateField field v)"

definition saveFieldEditing_persisted ::
  "'e Supabase \<Rightarrow> 's HomePersisted \<Rightarrow> 's HomePersisted" where
  "saveFieldEditing_persisted db s =
     (case fieldEditing s of
        None \<Rightarrow> s
      | Some (FieldEditing i field) \<Rightarrow>
          (if session s = None then s
           else (case update_todo db (field_payload field (fieldEditValue s)) i of
                   Inl error \<Rightarrow> reportError msg_field_failed s
                 | Inr _ \<Rightarrow>
                     s\<lparr>todos := map (\<lambda>todo. if id' todo = i
                                              then set_field field (fieldEditValue s) todo
                                            else todo) (todos s),
                       fieldEditing := None, fieldEditValue := []\<rparr>)))"


section \<open>Example data\<close>

definition example_todo :: Todo where
  "example_todo =
     \<lparr>id' = ascii ''a'', text' = ascii ''Buy milk'', category = [0xAC1C, 0xC778],
      priority = Low, dueDate = [], completed = False\<rparr>"

definition example_form :: TodoForm where
  "example_form =
     \<lparr>form_text = ascii '' Finish report '', form_category = [0xC5C5, 0xBB34],
      form_priority = High, form_dueDate = ascii ''2024-01-10''\<rparr>"

definition example_home :: Home where
  "example_home =
     \<lparr>todos = [example_todo], form = example_form, editingId = None,
      editForm = empty_form, filter' = FilterAll, categoryFilter = ascii ''all'',
      sortBy = SortDate,
      fieldEditing = Some (FieldEditing (ascii ''a'') FieldCategory),
      fieldEditValue = [0xC5C5, 0xBB34]\<rparr>"

definition example_page :: "unit HomePersisted" where
  "example_page =
     \<lparr>todos = [example_todo], form = example_form, editingId = None,
      editForm = example_form, filter' = FilterAll, categoryFilter = ascii ''all'',
      sortBy = SortDate,
      fieldEditing = Some (FieldEditing (ascii ''a'') FieldCategory),
      fieldEditValue = [0xC5C5, 0xBB34],
      isLoading = False, isSubmitting = False, feedback = None, session = Some (),
      authEmail = [], authPassword = [], authMode = Signin, authLoading = False\<rparr>"

definition remote_ok :: "unit Supabase" where
  "remote_ok =
     \<lparr>insert_todo = (\<lambda>p. Inr \<lparr>row_id = ascii ''b'', row_text = ins_text p,
                                 row_category = ins_category p,
                                 row_priority = ins_priority p,
                                 due_date = ins_due_date p,
                                 row_completed = ins_completed p\<rparr>),
      update_todo = (\<lambda>p i. Inr ()),
      delete_todo = (\<lambda>i. Inr ())\<rparr>"

definition remote_down :: "unit Supabase" where
  "remote_down =
     \<lparr>insert_todo = (\<lambda>p. Inl ()), update_todo = (\<lambda>p i. Inl ()),
      delete_todo = (\<lambda>i. Inl ())\<rparr>"

definition example_row :: Row where
  "example_row =
     \<lparr>row_id = ascii ''b'', row_text = ascii ''Finish report'',
      row_category = [0xC5C5, 0xBB34], row_priority = High,
      due_date = Some (ascii ''2024-01-10''), row_completed = False\<rparr>"


text \<open>
  The three tasks of the scenario of the specification, their timestamps (UTC
  midnight, in milliseconds), a store holding them, and a task whose category is
  not one of the four options.
\<close>

definition scenario_todos :: "Todo list" where
  "scenario_todos =
     [\<lparr>id' = ascii ''1'', text' = ascii ''Buy milk'', category = [0xAC1C, 0xC778],
       priority = Low, dueDate = [], completed = False\<rparr>,
      \<lparr>id' = ascii ''2'', text' = ascii ''Finish report'', category = [0xC5C5, 0xBB34],
       priority = High, dueDate = ascii ''2024-01-10'', completed = True\<rparr>,
      \<lparr>id' = ascii ''3'', text' = ascii ''Review PR'', category = [0xC5C5, 0xBB34],
       priority = Medium, dueDate = ascii ''2024-01-05'', completed = False\<rparr>]"

definition scenario_getTime :: "jsstring \<Rightarrow> int option" where
  "scenario_getTime d =
     (if d = ascii ''2024-01-10'' then Some 1704844800000
      else if d = ascii ''2024-01-05'' then Some 1704412800000
      else None)"

text \<open>
  Three tasks of which the second has a due date that is no date, and a
  \<open>localeCompare\<close> that finds all strings equal.
\<close>

definition unparsable_todos :: "Todo list" where
  "unparsable_todos =
     [\<lparr>id' = ascii ''1'', text' = ascii ''Finish report'', category = [0xC5C5, 0xBB34],
       priority = High, dueDate = ascii ''2024-01-10'', completed = False\<rparr>,
      \<lparr>id' = ascii ''2'', text' = ascii ''Call home'', category = [0xAC1C, 0xC778],
       priority = Low, dueDate = ascii ''not-a-date'', completed = False\<rparr>,
      \<lparr>id' = ascii ''3'', text' = ascii ''Review PR'', category = [0xC5C5, 0xBB34],
       priority = Medium, dueDate = ascii ''2024-01-05'', completed = False\<rparr>]"

definition flat_localeCompare :: "jsstring \<Rightarrow> jsstring \<Rightarrow> int" where
  "flat_localeCompare a b = 0"

definition scenario_store :: Store where
  "scenario_store = \<lparr>arrays = [0 \<mapsto> scenario_todos], fresh = 1\<rparr>"

definition stray_todo :: Todo where
  "stray_todo =
     \<lparr>id' = ascii ''4'', text' = ascii ''Call home'', category = ascii ''family'',
      priority = Low, dueDate = [], completed = False\<rparr>"




section \<open>Mutations\<close>

subsection \<open>Toggle\<close>

lemma toggle_flip_twice:
  "map (\<lambda>todo. if id' todo = i then todo\<lparr>completed := \<not> completed todo\<rparr> else todo)
     (map (\<lambda>todo. if id' todo = i then todo\<lparr>completed := \<not> completed todo\<rparr> else todo) ts) = ts"
  by (induction ts) auto

lemma map_absent_id:
  "i \<notin> id' ` set ts \<Longrightarrow> map (\<lambda>todo. if id' todo = i then f todo else todo) ts = ts"
  by (induction ts) auto

lemma set_flag_back:
  "\<forall>todo\<in>set ts. id' todo = i \<longrightarrow> completed todo = c \<Longrightarrow>
   map (\<lambda>todo. if id' todo = i then todo\<lparr>completed := \<not> \<not> c\<rparr> else todo)
     (map (\<lambda>todo. if id' todo = i then todo\<lparr>completed := \<not> c\<rparr> else todo) ts) = ts"
  by (induction ts) auto

lemma set_flag_idem:
  "map (\<lambda>todo. if id' todo = i then todo\<lparr>completed := \<not> c\<rparr> else todo)
     (map (\<lambda>todo. if id' todo = i then todo\<lparr>completed := \<not> c\<rparr> else todo) ts) =
   map (\<lambda>todo. if id' todo = i then todo\<lparr>completed := \<not> c\<rparr> else todo) ts"
  by (induction ts) auto

lemma set_flag_changes:
  assumes "todo \<in> set ts" and "id' todo = i" and "completed todo = c"
  shows "map (\<lambda>todo. if id' todo = i then todo\<lparr>completed := \<not> c\<rparr> else todo) ts \<noteq> ts"
proof
  assume eq: "map (\<lambda>todo. if id' todo = i then todo\<lparr>completed := \<not> c\<rparr> else todo) ts = ts"
  have "map completed (map (\<lambda>todo. if id' todo = i then todo\<lparr>completed := \<not> c\<rparr> else todo) ts) =
      map completed ts"
    by (simp only: eq)
  then have "map (\<lambda>todo. if id' todo = i then \<not> c else completed todo) ts = map completed ts"
    by (simp add: comp_def if_distrib [of completed] cong: if_cong)
  then have "(if id' todo = i then \<not> c else completed todo) = completed todo"
    using assms(1) by (simp only: map_eq_conv)
  then show False using assms(2,3) by simp
qed

text \<open>
  Counterexample to C4 as stated: in the persisted page \<open>toggleTodo(id, completed)\<close>
  writes \<open>!completed\<close>, the negation of the flag its caller saw. Two calls with the
  same arguments (two clicks before the page is rendered again) leave the task
  completed, although it was pending at the start.
\<close>

theorem toggle_twice_counterexample:
  "map completed (todos example_page) = [False] \<and>
   map completed
     (todos (toggleTodo_persisted remote_ok (ascii ''a'') False
        (toggleTodo_persisted remote_ok (ascii ''a'') False example_page))) = [True]"
  by (simp add: toggleTodo_persisted_def example_page_def example_todo_def remote_ok_def)

text \<open>
  Claim C4, amended. In the local page, toggling the same id twice gives back the
  collection, and toggling an id that no task has changes nothing. In the
  persisted page \<open>toggleTodo(id, c)\<close>, once the remote write has succeeded, sets
  the flag of every task with that id to \<open>\<not> c\<close>. A call with the flag \<open>c\<close> the
  matching tasks have, followed by a call with \<open>\<not> c\<close> (what the checkbox passes
  after each rendering), gives back the collection. Two calls with the same
  flag \<open>c\<close> give what one call gives, and so do not give back a collection in
  which a matching task had the flag \<open>c\<close>. An id that no task has leaves the
  collection as it is.
\<close>

theorem toggle_twice:
  fixes s :: Home and p :: "'s HomePersisted" and db :: "'e Supabase"
  shows
  "todos (toggleTodo i (toggleTodo i s)) = todos s \<and>
   (i \<notin> id' ` set (todos s) \<longrightarrow> toggleTodo i s = s) \<and>
   (session p \<noteq> None \<and> update_todo db (UpdateCompleted (\<not> c)) i = Inr ()
    \<longrightarrow> todos (toggleTodo_persisted db i c p) =
          map (\<lambda>todo. if id' todo = i then todo\<lparr>completed := \<not> c\<rparr> else todo) (todos p)) \<and>
   (session p \<noteq> None \<and>
    update_todo db (UpdateCompleted (\<not> c)) i = Inr () \<and>
    update_todo db (UpdateCompleted c) i = Inr () \<and>
    (\<forall>todo\<in>set (todos p). id' todo = i \<longrightarrow> completed todo = c)
    \<longrightarrow> todos (toggleTodo_persisted db i (\<not> c) (toggleTodo_persisted db i c p)) = todos p) \<and>
   (session p \<noteq> None \<and> update_todo db (UpdateCompleted (\<not> c)) i = Inr ()
    \<longrightarrow> todos (toggleTodo_persisted db i c (toggleTodo_persisted db i c p)) =
          todos (toggleTodo_persisted db i c p)) \<and>
   (session p \<noteq> None \<and> update_todo db (UpdateCompleted (\<not> c)) i = Inr () \<and>
    (\<exists>todo\<in>set (todos p). id' todo = i \<and> completed todo = c)
    \<longrightarrow> todos (toggleTodo_persisted db i c (toggleTodo_persisted db i c p)) \<noteq> todos p) \<and>
   (i \<notin> id' ` set (todos p) \<longrightarrow> todos (toggleTodo_persisted db i c p) = todos p)"
proof -
  let ?f = "\<lambda>todo. if id' todo = i then todo\<lparr>completed := \<not> c\<rparr> else todo"
  have inner: "toggleTodo_persisted db i c p = p\<lparr>todos := map ?f (todos p)\<rparr>"
    if "session p \<noteq> None" "update_todo db (UpdateCompleted (\<not> c)) i = Inr ()"
    using that by (auto simp add: toggleTodo_persisted_def)
  have writes: "todos (toggleTodo_persisted db i c p) = map ?f (todos p)"
    if "session p \<noteq> None" "update_todo db (UpdateCompleted (\<not> c)) i = Inr ()"
    using inner [OF that] by simp
  have twice: "todos (toggleTodo_persisted db i c (toggleTodo_persisted db i c p)) =
      map ?f (todos p)"
    if "session p \<noteq> None" "update_todo db (UpdateCompleted (\<not> c)) i = Inr ()"
    unfolding inner [OF that] using that set_flag_idem [of i c "todos p"]
    by (auto simp add: toggleTodo_persisted_def simp del: map_map)
  have restores: "todos (toggleTodo_persisted db i (\<not> c) (toggleTodo_persisted db i c p)) = todos p"
    if "session p \<noteq> None" "update_todo db (UpdateCompleted (\<not> c)) i = Inr ()"
      "update_todo db (UpdateCompleted c) i = Inr ()"
      "\<forall>todo\<in>set (todos p). id' todo = i \<longrightarrow> completed todo = c"
    unfolding inner [OF that(1,2)] using that(1,3) set_flag_back [OF that(4)]
    by (auto simp add: toggleTodo_persisted_def simp del: map_map)
  have differs: "todos (toggleTodo_persisted db i c (toggleTodo_persisted db i c p)) \<noteq> todos p"
    if "session p \<noteq> None" "update_todo db (UpdateCompleted (\<not> c)) i = Inr ()"
      "\<exists>todo\<in>set (todos p). id' todo = i \<and> completed todo = c"
    using twice [OF that(1,2)] that(3) set_flag_changes [of _ "todos p" i c] by auto
  have l1: "todos (toggleTodo i (toggleTodo i s)) = todos s"
    by (simp add: toggleTodo_def toggle_flip_twice del: map_map)
  have l2: "toggleTodo i s = s" if "i \<notin> id' ` set (todos s)"
    using that by (simp add: toggleTodo_def map_absent_id)
  have absent: "todos (toggleTodo_persisted db i c p) = todos p" if "i \<notin> id' ` set (todos p)"
    using that
    by (simp add: toggleTodo_persisted_def reportError_def map_absent_id split: sum.splits)
  show ?thesis
    using l1 l2 writes restores twice differs absent by (intro conjI impI) auto
qed

text \<open>The hypotheses of the amended claim C4 hold on the example states.\<close>

theorem toggle_twice_witness:
  "todos (toggleTodo (ascii ''a'') (toggleTodo (ascii ''a'') example_home)) = todos example_home \<and>
   ascii ''z'' \<notin> id' ` set (todos example_home) \<and>
   toggleTodo (ascii ''z'') example_home = example_home \<and>
   session example_page \<noteq> None \<and>
   update_todo remote_ok (UpdateCompleted (\<not> False)) (ascii ''a'') = Inr () \<and>
   update_todo remote_ok (UpdateCompleted False) (ascii ''a'') = Inr () \<and>
   map completed (filter (\<lambda>todo. id' todo = ascii ''a'') (todos example_page)) = [False] \<and>
   todos (toggleTodo_persisted remote_ok (ascii ''a'') False example_page) =
     map (\<lambda>todo. if id' todo = ascii ''a'' then todo\<lparr>completed := \<not> False\<rparr> else todo)
       (todos example_page) \<and>
   todos (toggleTodo_persisted remote_ok (ascii ''a'') (\<not> False)
            (toggleTodo_persisted remote_ok (ascii ''a'') False example_page)) = todos example_page \<and>
   todos (toggleTodo_persisted remote_ok (ascii ''a'') False
            (toggleTodo_persisted remote_ok (ascii ''a'') False example_page)) =
     todos (toggleTodo_persisted remote_ok (ascii ''a'') False example_page) \<and>
   todos (toggleTodo_persisted remote_ok (ascii ''a'') False
            (toggleTodo_persisted remote_ok (ascii ''a'') False example_page)) \<noteq>
     todos example_page \<and>
   ascii ''z'' \<notin> id' ` set (todos example_page) \<and>
   todos (toggleTodo_persisted remote_ok (ascii ''z'') False example_page) = todos example_page"
proof -
  have a: "ascii ''z'' \<notin> id' ` set (todos example_home)"
    by (simp add: example_home_def example_todo_def ascii_def)
  have b: "ascii ''z'' \<notin> id' ` set (todos example_page)"
    by (simp add: example_page_def example_todo_def ascii_def)
  have c: "session example_page \<noteq> None"
    "update_todo remote_ok (UpdateCompleted (\<not> False)) (ascii ''a'') = Inr ()"
    "update_todo remote_ok (UpdateCompleted False) (ascii ''a'') = Inr ()"
    by (simp_all add: example_page_def remote_ok_def)
  have d: "\<forall>todo\<in>set (todos example_page). id' todo = ascii ''a'' \<longrightarrow> completed todo = False"
    by (simp add: example_page_def example_todo_def)
  have e: "\<exists>todo\<in>set (todos example_page). id' todo = ascii ''a'' \<and> completed todo = False"
    by (simp add: example_page_def example_todo_def)
  have f: "map completed (filter (\<lambda>todo. id' todo = ascii ''a'') (todos example_page)) = [False]"
    by (simp add: example_page_def example_todo_def)
  note A = toggle_twice [of "ascii ''a''" example_home example_page remote_ok False]
  note Z = toggle_twice [of "ascii ''z''" example_home example_page remote_ok False]
  have r1: "todos (toggleTodo (ascii ''a'') (toggleTodo (ascii ''a'') example_home)) =
      todos example_home"
    using A by blast
  have r2: "toggleTodo (ascii ''z'') example_home = example_home"
    using Z a by blast
  have r3: "todos (toggleTodo_persisted remote_ok (ascii ''a'') False example_page) =
     map (\<lambda>todo. if id' todo = ascii ''a'' then todo\<lparr>completed := \<not> False\<rparr> else todo)
       (todos example_page)"
    using A c by blast
  have r4: "todos (toggleTodo_persisted remote_ok (ascii ''a'') (\<not> False)
            (toggleTodo_persisted remote_ok (ascii ''a'') False example_page)) = todos example_page"
    using A c d by blast
  have r5: "todos (toggleTodo_persisted remote_ok (ascii ''a'') False
            (toggleTodo_persisted remote_ok (ascii ''a'') False example_page)) =
     todos (toggleTodo_persisted remote_ok (ascii ''a'') False example_page)"
    using A c by blast
  have r6: "todos (toggleTodo_persisted remote_ok (ascii ''a'') False
            (toggleTodo_persisted remote_ok (ascii ''a'') False example_page)) \<noteq>
     todos example_page"
    using A c e by blast
  have r7: "todos (toggleTodo_persisted remote_ok (ascii ''z'') False example_page) =
      todos example_page"
    using Z b by blast
  show ?thesis
    by (intro conjI a b c f r1 r2 r3 r4 r5 r6 r7)
qed


subsection \<open>Create\<close>

lemma or_null_roundtrip: "(case or_null v of None \<Rightarrow> [] | Some d \<Rightarrow> d) = v"
  by (simp add: or_null_def)

text \<open>
  Counterexample to C2 as stated: in the persisted page the created task is put
  in front of the collection, not after it, and while a submission is in flight
  a form with text creates nothing.
\<close>

theorem addTodo_counterexample:
  "map text' (todos example_page) = [ascii ''Buy milk''] \<and>
   trim (form_text (form example_page)) = ascii ''Finish report'' \<and>
   map text' (todos (addTodo_persisted remote_ok example_page)) =
     [ascii ''Finish report'', ascii ''Buy milk''] \<and>
   todos (addTodo_persisted remote_ok (example_page\<lparr>isSubmitting := True\<rparr>)) =
     todos example_page"
  by (simp add: addTodo_persisted_def example_page_def example_todo_def example_form_def
      remote_ok_def insert_payload_def mapRowToTodo_def trim_def isWhiteSpace_def ascii_def
      or_null_def)

text \<open>
  Claim C2, amended. In the local page a form whose text trims to a non-empty
  string appends exactly one task at the end, with the trimmed text, the
  submitted category, priority and due date, and \<open>completed = false\<close>; a form whose
  text trims to the empty string leaves the whole state as it is. In the
  persisted page the same form, with a session, no submission in flight and a
  successful remote insert, puts the row returned by the store in front of the
  collection; that task has the submitted values when the store returns the
  values it was sent. A form whose text trims to the empty string leaves the
  collection as it is.
\<close>

theorem addTodo_amended:
  fixes s :: Home and p :: "'s HomePersisted" and db :: "'e Supabase"
  shows
  "(trim (form_text (form s)) \<noteq> [] \<longrightarrow>
      todos (addTodo uuid s) =
        todos s @ [\<lparr>id' = uuid, text' = trim (form_text (form s)),
                    category = form_category (form s), priority = form_priority (form s),
                    dueDate = form_dueDate (form s), completed = False\<rparr>]) \<and>
   (trim (form_text (form s)) = [] \<longrightarrow> addTodo uuid s = s) \<and>
   (trim (form_text (form p)) \<noteq> [] \<and> session p \<noteq> None \<and> \<not> isSubmitting p \<and>
    insert_todo db (insert_payload (form p)) = Inr row
    \<longrightarrow> todos (addTodo_persisted db p) = mapRowToTodo row # todos p) \<and>
   (row_text row = ins_text (insert_payload (form p)) \<and>
    row_category row = ins_category (insert_payload (form p)) \<and>
    row_priority row = ins_priority (insert_payload (form p)) \<and>
    due_date row = ins_due_date (insert_payload (form p)) \<and>
    row_completed row = ins_completed (insert_payload (form p))
    \<longrightarrow> mapRowToTodo row =
          \<lparr>id' = row_id row, text' = trim (form_text (form p)),
           category = form_category (form p), priority = form_priority (form p),
           dueDate = form_dueDate (form p), completed = False\<rparr>) \<and>
   (trim (form_text (form p)) = [] \<longrightarrow> todos (addTodo_persisted db p) = todos p)"
proof (intro conjI impI)
  assume "trim (form_text (form s)) \<noteq> []"
  then show "todos (addTodo uuid s) =
        todos s @ [\<lparr>id' = uuid, text' = trim (form_text (form s)),
                    category = form_category (form s), priority = form_priority (form s),
                    dueDate = form_dueDate (form s), completed = False\<rparr>]"
    by (simp add: addTodo_def)
next
  assume "trim (form_text (form s)) = []"
  then show "addTodo uuid s = s"
    by (simp add: addTodo_def)
next
  assume "trim (form_text (form p)) \<noteq> [] \<and> session p \<noteq> None \<and> \<not> isSubmitting p \<and>
    insert_todo db (insert_payload (form p)) = Inr row"
  then show "todos (addTodo_persisted db p) = mapRowToTodo row # todos p"
    by (auto simp add: addTodo_persisted_def)
next
  assume "row_text row = ins_text (insert_payload (form p)) \<and>
    row_category row = ins_category (insert_payload (form p)) \<and>
    row_priority row = ins_priority (insert_payload (form p)) \<and>
    due_date row = ins_due_date (insert_payload (form p)) \<and>
    row_completed row = ins_completed (insert_payload (form p))"
  then show "mapRowToTodo row =
          \<lparr>id' = row_id row, text' = trim (form_text (form p)),
           category = form_category (form p), priority = form_priority (form p),
           dueDate = form_dueDate (form p), completed = False\<rparr>"
    by (simp add: mapRowToTodo_def insert_payload_def or_null_roundtrip)
next
  assume "trim (form_text (form p)) = []"
  then show "todos (addTodo_persisted db p) = todos p"
    by (simp add: addTodo_persisted_def reportError_def)
qed

text \<open>
  The hypotheses of the amended claim C2 hold on the example states.
\<close>

theorem addTodo_amended_witness:
  "trim (form_text (form example_home)) \<noteq> [] \<and>
   todos (addTodo (ascii ''b'') example_home) =
     todos example_home @
       [\<lparr>id' = ascii ''b'', text' = trim (form_text (form example_home)),
         category = form_category (form example_home),
         priority = form_priority (form example_home),
         dueDate = form_dueDate (form example_home), completed = False\<rparr>] \<and>
   trim (form_text (form (example_home\<lparr>form := empty_form\<rparr>))) = [] \<and>
   addTodo (ascii ''b'') (example_home\<lparr>form := empty_form\<rparr>) =
     example_home\<lparr>form := empty_form\<rparr> \<and>
   trim (form_text (form example_page)) \<noteq> [] \<and> session example_page \<noteq> None \<and>
   \<not> isSubmitting example_page \<and>
   insert_todo remote_ok (insert_payload (form example_page)) = Inr example_row \<and>
   todos (addTodo_persisted remote_ok example_page) =
     mapRowToTodo example_row # todos example_page \<and>
   mapRowToTodo example_row =
     \<lparr>id' = row_id example_row, text' = trim (form_text (form example_page)),
      category = form_category (form example_page),
      priority = form_priority (form example_page),
      dueDate = form_dueDate (form example_page), completed = False\<rparr> \<and>
   todos (addTodo_persisted remote_ok (example_page\<lparr>form := empty_form\<rparr>)) =
     todos (example_page\<lparr>form := empty_form\<rparr>)"
proof -
  have h1: "trim (form_text (form example_home)) \<noteq> []"
    by (simp add: example_home_def example_form_def trim_def isWhiteSpace_def ascii_def)
  have h2: "trim (form_text (form (example_home\<lparr>form := empty_form\<rparr>))) = []"
    by (simp add: empty_form_def trim_def)
  have h3: "trim (form_text (form example_page)) \<noteq> [] \<and> session example_page \<noteq> None \<and>
      \<not> isSubmitting example_page \<and>
      insert_todo remote_ok (insert_payload (form example_page)) = Inr example_row"
    by (simp add: example_page_def example_form_def remote_ok_def example_row_def
        insert_payload_def or_null_def trim_def isWhiteSpace_def ascii_def)
  have h4: "row_text example_row = ins_text (insert_payload (form example_page)) \<and>
      row_category example_row = ins_category (insert_payload (form example_page)) \<and>
      row_priority example_row = ins_priority (insert_payload (form example_page)) \<and>
      due_date example_row = ins_due_date (insert_payload (form example_page)) \<and>
      row_completed example_row = ins_completed (insert_payload (form example_page))"
    by (simp add: example_page_def example_form_def example_row_def
        insert_payload_def or_null_def trim_def isWhiteSpace_def ascii_def)
  have h5: "trim (form_text (form (example_page\<lparr>form := empty_form\<rparr>))) = []"
    by (simp add: empty_form_def trim_def)
  show ?thesis
    using h1 h2 h3 h4 h5
      addTodo_amended [where s = example_home and uuid = "ascii ''b''" and p = example_page
        and db = remote_ok and row = example_row]
      addTodo_amended [where s = "example_home\<lparr>form := empty_form\<rparr>"
        and uuid = "ascii ''b''" and p = "example_page\<lparr>form := empty_form\<rparr>"
        and db = remote_ok and row = example_row]
    by blast
qed


subsection \<open>Delete\<close>

lemma deleteTodo_effect:
  "todos (deleteTodo i s) = filter (\<lambda>todo. id' todo \<noteq> i) (todos s) \<and>
   editingId (deleteTodo i s) = (if editingId s = Some i then None else editingId s) \<and>
   fieldEditing (deleteTodo i s) = fieldEditing s \<and>
   fieldEditValue (deleteTodo i s) = fieldEditValue s"
  by (simp add: deleteTodo_def Let_def)

lemma deleteTodo_persisted_effect:
  "session p \<noteq> None \<Longrightarrow> delete_todo db i = Inr () \<Longrightarrow>
   todos (deleteTodo_persisted db i p) = filter (\<lambda>todo. id' todo \<noteq> i) (todos p) \<and>
   editingId (deleteTodo_persisted db i p) = (if editingId p = Some i then None else editingId p) \<and>
   fieldEditing (deleteTodo_persisted db i p) = fieldEditing p \<and>
   fieldEditValue (deleteTodo_persisted db i p) = fieldEditValue p"
  by (auto simp add: deleteTodo_persisted_def Let_def)

text \<open>
  Claim C1 at the failing input: the task \<open>a\<close> is under a single-field edit and
  is deleted. The task is removed, and the single-field edit session still
  names it, in the local and in the persisted page.
\<close>

theorem deleteTodo_keeps_field_session:
  "map id' (todos example_home) = [ascii ''a''] \<and>
   fieldEditing example_home = Some (FieldEditing (ascii ''a'') FieldCategory) \<and>
   todos (deleteTodo (ascii ''a'') example_home) = [] \<and>
   fieldEditing (deleteTodo (ascii ''a'') example_home) =
     Some (FieldEditing (ascii ''a'') FieldCategory) \<and>
   map id' (todos example_page) = [ascii ''a''] \<and>
   fieldEditing example_page = Some (FieldEditing (ascii ''a'') FieldCategory) \<and>
   todos (deleteTodo_persisted remote_ok (ascii ''a'') example_page) = [] \<and>
   fieldEditing (deleteTodo_persisted remote_ok (ascii ''a'') example_page) =
     Some (FieldEditing (ascii ''a'') FieldCategory)"
  by (simp add: deleteTodo_def deleteTodo_persisted_def example_home_def example_page_def
      example_todo_def remote_ok_def Let_def)


subsection \<open>Remote failures\<close>

text \<open>
  Claim C3. In the persisted page, for create, toggle, delete, full-row save and
  single-field save: when the remote write the operation issues returns an
  error, the collection after the operation is the collection before it and the
  feedback is the error message of that operation; and the collection changes
  only when that remote write has succeeded.
\<close>

theorem remote_error_keeps_todos:
  fixes p :: "'s HomePersisted" and db :: "'e Supabase"
  shows
  "(session p \<noteq> None \<and> trim (form_text (form p)) \<noteq> [] \<and> \<not> isSubmitting p \<and>
    insert_todo db (insert_payload (form p)) = Inl e
    \<longrightarrow> todos (addTodo_persisted db p) = todos p \<and>
        feedback (addTodo_persisted db p) =
          Some \<lparr>type' = FeedbackError, message = msg_add_failed\<rparr>) \<and>
   (session p \<noteq> None \<and> update_todo db (UpdateCompleted (\<not> c)) i = Inl e
    \<longrightarrow> todos (toggleTodo_persisted db i c p) = todos p \<and>
        feedback (toggleTodo_persisted db i c p) =
          Some \<lparr>type' = FeedbackError, message = msg_toggle_failed\<rparr>) \<and>
   (session p \<noteq> None \<and> delete_todo db i = Inl e
    \<longrightarrow> todos (deleteTodo_persisted db i p) = todos p \<and>
        feedback (deleteTodo_persisted db i p) =
          Some \<lparr>type' = FeedbackError, message = msg_delete_failed\<rparr>) \<and>
   (session p \<noteq> None \<and> trim (form_text (editForm p)) \<noteq> [] \<and>
    update_todo db (edit_payload (editForm p)) i = Inl e
    \<longrightarrow> todos (saveEditing_persisted db i p) = todos p \<and>
        feedback (saveEditing_persisted db i p) =
          Some \<lparr>type' = FeedbackError, message = msg_edit_failed\<rparr>) \<and>
   (session p \<noteq> None \<and> fieldEditing p = Some (FieldEditing j field) \<and>
    update_todo db (field_payload field (fieldEditValue p)) j = Inl e
    \<longrightarrow> todos (saveFieldEditing_persisted db p) = todos p \<and>
        feedback (saveFieldEditing_persisted db p) =
          Some \<lparr>type' = FeedbackError, message = msg_field_failed\<rparr>) \<and>
   (todos (addTodo_persisted db p) \<noteq> todos p
    \<longrightarrow> (\<exists>row. insert_todo db (insert_payload (form p)) = Inr row)) \<and>
   (todos (toggleTodo_persisted db i c p) \<noteq> todos p
    \<longrightarrow> update_todo db (UpdateCompleted (\<not> c)) i = Inr ()) \<and>
   (todos (deleteTodo_persisted db i p) \<noteq> todos p
    \<longrightarrow> delete_todo db i = Inr ()) \<and>
   (todos (saveEditing_persisted db i p) \<noteq> todos p
    \<longrightarrow> update_todo db (edit_payload (editForm p)) i = Inr ()) \<and>
   (todos (saveFieldEditing_persisted db p) \<noteq> todos p
    \<longrightarrow> (\<exists>j field. fieldEditing p = Some (FieldEditing j field) \<and>
          update_todo db (field_payload field (fieldEditValue p)) j = Inr ()))"
proof (intro conjI impI)
  show "\<exists>row. insert_todo db (insert_payload (form p)) = Inr row"
    if "todos (addTodo_persisted db p) \<noteq> todos p"
    using that
    by (auto simp add: addTodo_persisted_def reportError_def split: if_splits sum.splits)
  show "update_todo db (UpdateCompleted (\<not> c)) i = Inr ()"
    if "todos (toggleTodo_persisted db i c p) \<noteq> todos p"
    using that
    by (auto simp add: toggleTodo_persisted_def reportError_def split: if_splits sum.splits)
  show "delete_todo db i = Inr ()"
    if "todos (deleteTodo_persisted db i p) \<noteq> todos p"
    using that
    by (auto simp add: deleteTodo_persisted_def reportError_def split: if_splits sum.splits)
  show "update_todo db (edit_payload (editForm p)) i = Inr ()"
    if "todos (saveEditing_persisted db i p) \<noteq> todos p"
    using that
    by (auto simp add: saveEditing_persisted_def reportError_def split: if_splits sum.splits)
  show "\<exists>j field. fieldEditing p = Some (FieldEditing j field) \<and>
          update_todo db (field_payload field (fieldEditValue p)) j = Inr ()"
    if "todos (saveFieldEditing_persisted db p) \<noteq> todos p"
    using that
    by (auto simp add: saveFieldEditing_persisted_def reportError_def
        split: if_splits sum.splits option.splits FieldEditing.splits)
qed (auto simp add: addTodo_persisted_def toggleTodo_persisted_def deleteTodo_persisted_def
    saveEditing_persisted_def saveFieldEditing_persisted_def reportError_def)

text \<open>
  The hypotheses of claim C3 hold on the example page, with a store that fails
  and with a store that succeeds.
\<close>

theorem remote_error_keeps_todos_witness:
  "(session example_page \<noteq> None \<and> trim (form_text (form example_page)) \<noteq> [] \<and>
    \<not> isSubmitting example_page \<and>
    insert_todo remote_down (insert_payload (form example_page)) = Inl ()) \<and>
   todos (addTodo_persisted remote_down example_page) = todos example_page \<and>
   feedback (addTodo_persisted remote_down example_page) =
     Some \<lparr>type' = FeedbackError, message = msg_add_failed\<rparr> \<and>
   update_todo remote_down (UpdateCompleted (\<not> False)) (ascii ''a'') = Inl () \<and>
   todos (toggleTodo_persisted remote_down (ascii ''a'') False example_page) =
     todos example_page \<and>
   feedback (toggleTodo_persisted remote_down (ascii ''a'') False example_page) =
     Some \<lparr>type' = FeedbackError, message = msg_toggle_failed\<rparr> \<and>
   delete_todo remote_down (ascii ''a'') = Inl () \<and>
   todos (deleteTodo_persisted remote_down (ascii ''a'') example_page) = todos example_page \<and>
   feedback (deleteTodo_persisted remote_down (ascii ''a'') example_page) =
     Some \<lparr>type' = FeedbackError, message = msg_delete_failed\<rparr> \<and>
   (trim (form_text (editForm example_page)) \<noteq> [] \<and>
    update_todo remote_down (edit_payload (editForm example_page)) (ascii ''a'') = Inl ()) \<and>
   todos (saveEditing_persisted remote_down (ascii ''a'') example_page) = todos example_page \<and>
   feedback (saveEditing_persisted remote_down (ascii ''a'') example_page) =
     Some \<lparr>type' = FeedbackError, message = msg_edit_failed\<rparr> \<and>
   (fieldEditing example_page = Some (FieldEditing (ascii ''a'') FieldCategory) \<and>
    update_todo remote_down (field_payload FieldCategory (fieldEditValue example_page))
      (ascii ''a'') = Inl ()) \<and>
   todos (saveFieldEditing_persisted remote_down example_page) = todos example_page \<and>
   feedback (saveFieldEditing_persisted remote_down example_page) =
     Some \<lparr>type' = FeedbackError, message = msg_field_failed\<rparr> \<and>
   todos (addTodo_persisted remote_ok example_page) \<noteq> todos example_page \<and>
   (\<exists>row. insert_todo remote_ok (insert_payload (form example_page)) = Inr row) \<and>
   todos (toggleTodo_persisted remote_ok (ascii ''a'') False example_page) \<noteq>
     todos example_page \<and>
   update_todo remote_ok (UpdateCompleted (\<not> False)) (ascii ''a'') = Inr () \<and>
   todos (deleteTodo_persisted remote_ok (ascii ''a'') example_page) \<noteq> todos example_page \<and>
   delete_todo remote_ok (ascii ''a'') = Inr () \<and>
   todos (saveEditing_persisted remote_ok (ascii ''a'') example_page) \<noteq> todos example_page \<and>
   update_todo remote_ok (edit_payload (editForm example_page)) (ascii ''a'') = Inr () \<and>
   todos (saveFieldEditing_persisted remote_ok example_page) \<noteq> todos example_page \<and>
   (\<exists>j field. fieldEditing example_page = Some (FieldEditing j field) \<and>
      update_todo remote_ok (field_payload field (fieldEditValue example_page)) j = Inr ())"
proof -
  have g: "session example_page \<noteq> None" "\<not> isSubmitting example_page"
      "trim (form_text (form example_page)) \<noteq> []"
      "trim (form_text (editForm example_page)) \<noteq> []"
      "fieldEditing example_page = Some (FieldEditing (ascii ''a'') FieldCategory)"
    by (simp_all add: example_page_def example_form_def trim_def isWhiteSpace_def ascii_def)
  have d: "insert_todo remote_down (insert_payload (form example_page)) = Inl ()"
      "update_todo remote_down (UpdateCompleted (\<not> False)) (ascii ''a'') = Inl ()"
      "delete_todo remote_down (ascii ''a'') = Inl ()"
      "update_todo remote_down (edit_payload (editForm example_page)) (ascii ''a'') = Inl ()"
      "update_todo remote_down (field_payload FieldCategory (fieldEditValue example_page))
         (ascii ''a'') = Inl ()"
    by (simp_all add: remote_down_def)
  have c1: "todos (addTodo_persisted remote_ok example_page) \<noteq> todos example_page"
    by (simp add: addTodo_persisted_def example_page_def example_form_def remote_ok_def
        trim_def isWhiteSpace_def ascii_def)
  have c2: "todos (toggleTodo_persisted remote_ok (ascii ''a'') False example_page) \<noteq>
      todos example_page"
    by (simp add: toggleTodo_persisted_def example_page_def example_todo_def remote_ok_def)
  have c3: "todos (deleteTodo_persisted remote_ok (ascii ''a'') example_page) \<noteq>
      todos example_page"
    by (simp add: deleteTodo_persisted_def example_page_def example_todo_def remote_ok_def
        Let_def)
  have c4: "todos (saveEditing_persisted remote_ok (ascii ''a'') example_page) \<noteq>
      todos example_page"
    by (simp add: saveEditing_persisted_def apply_editForm_def example_page_def
        example_todo_def example_form_def remote_ok_def trim_def isWhiteSpace_def ascii_def)
  have c5: "todos (saveFieldEditing_persisted remote_ok example_page) \<noteq> todos example_page"
    by (simp add: saveFieldEditing_persisted_def example_page_def example_todo_def
        remote_ok_def)
  note D = remote_error_keeps_todos [where p = example_page and db = remote_down and e = "()"
      and c = False and i = "ascii ''a''" and j = "ascii ''a''" and field = FieldCategory]
  note K = remote_error_keeps_todos [where p = example_page and db = remote_ok and e = "()"
      and c = False and i = "ascii ''a''" and j = "ascii ''a''" and field = FieldCategory]
  have r1: "todos (addTodo_persisted remote_down example_page) = todos example_page \<and>
      feedback (addTodo_persisted remote_down example_page) =
        Some \<lparr>type' = FeedbackError, message = msg_add_failed\<rparr>"
    using D [THEN conjunct1] g d by blast
  have r2: "todos (toggleTodo_persisted remote_down (ascii ''a'') False example_page) =
        todos example_page \<and>
      feedback (toggleTodo_persisted remote_down (ascii ''a'') False example_page) =
        Some \<lparr>type' = FeedbackError, message = msg_toggle_failed\<rparr>"
    using D [THEN conjunct2, THEN conjunct1] g d by blast
  have r3: "todos (deleteTodo_persisted remote_down (ascii ''a'') example_page) =
        todos example_page \<and>
      feedback (deleteTodo_persisted remote_down (ascii ''a'') example_page) =
        Some \<lparr>type' = FeedbackError, message = msg_delete_failed\<rparr>"
    using D [THEN conjunct2, THEN conjunct2, THEN conjunct1] g d by blast
  have r4: "todos (saveEditing_persisted remote_down (ascii ''a'') example_page) =
        todos example_page \<and>
      feedback (saveEditing_persisted remote_down (ascii ''a'') example_page) =
        Some \<lparr>type' = FeedbackError, message = msg_edit_failed\<rparr>"
    using D [THEN conjunct2, THEN conjunct2, THEN conjunct2, THEN conjunct1] g d by blast
  have r5: "todos (saveFieldEditing_persisted remote_down example_page) = todos example_page \<and>
      feedback (saveFieldEditing_persisted remote_down example_page) =
        Some \<lparr>type' = FeedbackError, message = msg_field_failed\<rparr>"
    using D [THEN conjunct2, THEN conjunct2, THEN conjunct2, THEN conjunct2, THEN conjunct1]
      g d by blast
  note K' = K [THEN conjunct2, THEN conjunct2, THEN conjunct2, THEN conjunct2, THEN conjunct2]
  have k1: "\<exists>row. insert_todo remote_ok (insert_payload (form example_page)) = Inr row"
    using K' [THEN conjunct1] c1 by blast
  have k2: "update_todo remote_ok (UpdateCompleted (\<not> False)) (ascii ''a'') = Inr ()"
    using K' [THEN conjunct2, THEN conjunct1] c2 by blast
  have k3: "delete_todo remote_ok (ascii ''a'') = Inr ()"
    using K' [THEN conjunct2, THEN conjunct2, THEN conjunct1] c3 by blast
  have k4: "update_todo remote_ok (edit_payload (editForm example_page)) (ascii ''a'') = Inr ()"
    using K' [THEN conjunct2, THEN conjunct2, THEN conjunct2, THEN conjunct1] c4 by blast
  have k5: "\<exists>j field. fieldEditing example_page = Some (FieldEditing j field) \<and>
      update_todo remote_ok (field_payload field (fieldEditValue example_page)) j = Inr ()"
    using K' [THEN conjunct2, THEN conjunct2, THEN conjunct2, THEN conjunct2] c5 by blast
  show ?thesis
    by (intro conjI g d c1 c2 c3 c4 c5 k1 k2 k3 k4 k5
        r1 [THEN conjunct1] r1 [THEN conjunct2] r2 [THEN conjunct1] r2 [THEN conjunct2]
        r3 [THEN conjunct1] r3 [THEN conjunct2] r4 [THEN conjunct1] r4 [THEN conjunct2]
        r5 [THEN conjunct1] r5 [THEN conjunct2])
qed


section \<open>Derived view: sorting and filtering\<close>

subsection \<open>The sort\<close>

lemma mset_sort_insert: "mset (sort_insert f x ys) = add_mset x (mset ys)"
  by (induction ys) auto

lemma mset_array_sort: "mset (array_sort f xs) = mset xs"
  by (induction xs) (auto simp: array_sort_def mset_sort_insert)

lemma set_array_sort: "set (array_sort f xs) = set xs"
  using mset_array_sort [of f xs] by (metis set_mset_mset)

lemma array_sort_Cons: "array_sort f (x # xs) = sort_insert f x (array_sort f xs)"
  by (simp add: array_sort_def)

lemma array_sort_Nil: "array_sort f [] = []"
  by (simp add: array_sort_def)

text \<open>An element that compares greater than a whole prefix is inserted behind it.\<close>

lemma sort_insert_skip:
  "\<forall>y\<in>set ys. 0 < SortCompare f x y \<Longrightarrow>
   sort_insert f x (ys @ zs) = ys @ sort_insert f x zs"
  by (induction ys) auto

lemma sort_insert_front:
  "\<forall>z\<in>set zs. SortCompare f x z \<le> 0 \<Longrightarrow> sort_insert f x zs = x # zs"
  by (cases zs) auto

text \<open>An element that goes before a whole suffix is inserted into the prefix.\<close>

lemma sort_insert_prefix:
  "\<forall>u\<in>set us. SortCompare f x u \<le> 0 \<Longrightarrow>
   sort_insert f x (ds @ us) = sort_insert f x ds @ us"
  by (induction ds) (auto simp: sort_insert_front)

text \<open>Insertion keeps a list sorted when the comparator is a total preorder on it.\<close>

lemma sorted_sort_insert:
  assumes tot: "\<And>a b. a \<in> A \<Longrightarrow> b \<in> A \<Longrightarrow> SortCompare f a b \<le> 0 \<or> SortCompare f b a \<le> 0"
    and trans: "\<And>a b c. a \<in> A \<Longrightarrow> b \<in> A \<Longrightarrow> c \<in> A \<Longrightarrow>
        SortCompare f a b \<le> 0 \<Longrightarrow> SortCompare f b c \<le> 0 \<Longrightarrow> SortCompare f a c \<le> 0"
    and "x \<in> A" and "set ys \<subseteq> A"
    and "sorted_wrt (\<lambda>a b. SortCompare f a b \<le> 0) ys"
  shows "sorted_wrt (\<lambda>a b. SortCompare f a b \<le> 0) (sort_insert f x ys)"
  using assms(3-5)
proof (induction ys)
  case Nil
  then show ?case by simp
next
  case (Cons y ys)
  show ?case
  proof (cases "SortCompare f x y \<le> 0")
    case True
    have "SortCompare f x z \<le> 0" if "z \<in> set ys" for z
      using trans [of x y z] that True Cons.prems by auto
    with True Cons.prems show ?thesis by auto
  next
    case False
    then have "SortCompare f y x \<le> 0"
      using tot [of x y] Cons.prems by auto
    moreover have "sorted_wrt (\<lambda>a b. SortCompare f a b \<le> 0) (sort_insert f x ys)"
      using Cons by auto
    moreover have "set (sort_insert f x ys) = insert x (set ys)"
      using mset_sort_insert [of f x ys] by (metis set_mset_add_mset_insert set_mset_mset)
    ultimately show ?thesis
      using False Cons.prems by auto
  qed
qed

lemma sorted_array_sort:
  assumes tot: "\<And>a b. a \<in> A \<Longrightarrow> b \<in> A \<Longrightarrow> SortCompare f a b \<le> 0 \<or> SortCompare f b a \<le> 0"
    and trans: "\<And>a b c. a \<in> A \<Longrightarrow> b \<in> A \<Longrightarrow> c \<in> A \<Longrightarrow>
        SortCompare f a b \<le> 0 \<Longrightarrow> SortCompare f b c \<le> 0 \<Longrightarrow> SortCompare f a c \<le> 0"
    and "set xs \<subseteq> A"
  shows "sorted_wrt (\<lambda>a b. SortCompare f a b \<le> 0) (array_sort f xs)"
  using assms(3)
proof (induction xs)
  case Nil
  then show ?case by (simp add: array_sort_Nil)
next
  case (Cons x xs)
  have "set (array_sort f xs) \<subseteq> A"
    using Cons.prems by (simp add: set_array_sort)
  then show ?case
    unfolding array_sort_Cons
    using Cons sorted_sort_insert [of A f x "array_sort f xs", OF tot trans] by auto
qed

lemma scenario_by_date:
  "map text' (filteredAndSortedTodos scenario_getTime (\<lambda>a b. 0) scenario_todos FilterAll
      (ascii ''all'') SortDate) = [ascii ''Review PR'', ascii ''Finish report'', ascii ''Buy milk'']"
  by (simp add: filteredAndSortedTodos_def category_filter_def status_filter_def array_sort_def
      scenario_todos_def scenario_getTime_def SortCompare_def ascii_def)

lemma scenario_by_priority:
  "map text' (filteredAndSortedTodos scenario_getTime (\<lambda>a b. 0) scenario_todos FilterAll
      (ascii ''all'') SortPriority) = [ascii ''Finish report'', ascii ''Review PR'', ascii ''Buy milk'']"
  by (simp add: filteredAndSortedTodos_def category_filter_def status_filter_def array_sort_def
      scenario_todos_def SortCompare_def ascii_def)


subsection \<open>Sorting by priority\<close>

lemma priority_compare:
  "SortCompare (compareTodos g l SortPriority) a b =
     priorityOrder (priority b) - priorityOrder (priority a)"
  by (simp add: SortCompare_def)

lemma priorityOrder_cases:
  "priorityOrder p = 3 \<and> p = High \<or> priorityOrder p = 2 \<and> p = Medium \<or> priorityOrder p = 1 \<and> p = Low"
  by (cases p) auto

lemma sort_priority_partition:
  "array_sort (compareTodos g l SortPriority) xs =
     filter (\<lambda>todo. priority todo = High) xs @
     filter (\<lambda>todo. priority todo = Medium) xs @
     filter (\<lambda>todo. priority todo = Low) xs"
proof (induction xs)
  case Nil
  then show ?case by (simp add: array_sort_Nil)
next
  case (Cons x xs)
  let ?f = "compareTodos g l SortPriority"
  let ?H = "filter (\<lambda>todo. priority todo = High) xs"
  let ?M = "filter (\<lambda>todo. priority todo = Medium) xs"
  let ?L = "filter (\<lambda>todo. priority todo = Low) xs"
  have IH: "array_sort ?f xs = ?H @ ?M @ ?L" by (rule Cons.IH)
  show ?case
  proof (cases "priority x")
    case High
    have "\<forall>z\<in>set (?H @ ?M @ ?L). SortCompare ?f x z \<le> 0"
      using High priorityOrder_cases by (auto simp: priority_compare)
    then have "sort_insert ?f x (?H @ ?M @ ?L) = x # ?H @ ?M @ ?L"
      by (rule sort_insert_front)
    with High IH show ?thesis by (simp add: array_sort_Cons del: compareTodos.simps)
  next
    case Medium
    have "\<forall>y\<in>set ?H. 0 < SortCompare ?f x y"
      using Medium by (auto simp: priority_compare)
    then have "sort_insert ?f x (?H @ ?M @ ?L) = ?H @ sort_insert ?f x (?M @ ?L)"
      by (rule sort_insert_skip)
    moreover have "\<forall>z\<in>set (?M @ ?L). SortCompare ?f x z \<le> 0"
      using Medium by (auto simp: priority_compare)
    then have "sort_insert ?f x (?M @ ?L) = x # ?M @ ?L"
      by (rule sort_insert_front)
    ultimately show ?thesis using Medium IH by (simp add: array_sort_Cons del: compareTodos.simps)
  next
    case Low
    have "\<forall>y\<in>set (?H @ ?M). 0 < SortCompare ?f x y"
      using Low by (auto simp: priority_compare)
    then have "sort_insert ?f x ((?H @ ?M) @ ?L) = (?H @ ?M) @ sort_insert ?f x ?L"
      by (rule sort_insert_skip)
    moreover have "\<forall>z\<in>set ?L. SortCompare ?f x z \<le> 0"
      using Low by (auto simp: priority_compare)
    then have "sort_insert ?f x ?L = x # ?L"
      by (rule sort_insert_front)
    ultimately show ?thesis using Low IH by (simp add: array_sort_Cons del: compareTodos.simps)
  qed
qed

lemma sorted_priority:
  "sorted_wrt (\<lambda>a b. priorityOrder (priority b) \<le> priorityOrder (priority a))
     (array_sort (compareTodos g l SortPriority) xs)"
proof -
  have "sorted_wrt (\<lambda>a b. SortCompare (compareTodos g l SortPriority) a b \<le> 0)
     (array_sort (compareTodos g l SortPriority) xs)"
    by (rule sorted_array_sort [where A = UNIV]) (auto simp: priority_compare)
  then show ?thesis by (simp add: priority_compare)
qed

text \<open>
  Claim C6. Whatever the collection, the filters and the input order, the view
  sorted by \<open>priority\<close> is in descending order of the rank high = 3, medium = 2,
  low = 1: it consists of the high tasks, then the medium tasks, then the low
  tasks (each group in the order of the filtered collection).
\<close>

theorem sort_by_priority:
  "sorted_wrt (\<lambda>a b. priorityOrder (priority b) \<le> priorityOrder (priority a))
     (filteredAndSortedTodos getTime localeCompare ts f cf SortPriority) \<and>
   filteredAndSortedTodos getTime localeCompare ts f cf SortPriority =
     filter (\<lambda>todo. priority todo = High) (category_filter cf (status_filter f ts)) @
     filter (\<lambda>todo. priority todo = Medium) (category_filter cf (status_filter f ts)) @
     filter (\<lambda>todo. priority todo = Low) (category_filter cf (status_filter f ts))"
  unfolding filteredAndSortedTodos_def
  by (intro conjI sorted_priority sort_priority_partition)


subsection \<open>Sorting by date\<close>

lemma date_compare_undated_dated:
  "dueDate x = [] \<Longrightarrow> dueDate y \<noteq> [] \<Longrightarrow> SortCompare (compareTodos g l SortDate) x y = 1"
  by (simp add: SortCompare_def)

lemma date_compare_undated_undated:
  "dueDate x = [] \<Longrightarrow> dueDate y = [] \<Longrightarrow> SortCompare (compareTodos g l SortDate) x y = 0"
  by (simp add: SortCompare_def)

lemma date_compare_dated_undated:
  "dueDate x \<noteq> [] \<Longrightarrow> dueDate y = [] \<Longrightarrow> SortCompare (compareTodos g l SortDate) x y = - 1"
  by (simp add: SortCompare_def)

lemma date_compare_dated_dated:
  "dueDate x \<noteq> [] \<Longrightarrow> dueDate y \<noteq> [] \<Longrightarrow> g (dueDate x) = Some tx \<Longrightarrow> g (dueDate y) = Some ty \<Longrightarrow>
   SortCompare (compareTodos g l SortDate) x y = tx - ty"
  by (simp add: SortCompare_def)

lemma sort_date_split:
  "array_sort (compareTodos g l SortDate) xs =
     array_sort (compareTodos g l SortDate) (filter (\<lambda>todo. dueDate todo \<noteq> []) xs) @
     filter (\<lambda>todo. dueDate todo = []) xs"
proof (induction xs)
  case Nil
  then show ?case by (simp add: array_sort_Nil)
next
  case (Cons x xs)
  let ?f = "compareTodos g l SortDate"
  let ?D = "array_sort ?f (filter (\<lambda>todo. dueDate todo \<noteq> []) xs)"
  let ?U = "filter (\<lambda>todo. dueDate todo = []) xs"
  have IH: "array_sort ?f xs = ?D @ ?U" by (rule Cons.IH)
  show ?case
  proof (cases "dueDate x = []")
    case True
    have "\<forall>y\<in>set ?D. 0 < SortCompare ?f x y"
      using True by (auto simp: set_array_sort date_compare_undated_dated)
    then have "sort_insert ?f x (?D @ ?U) = ?D @ sort_insert ?f x ?U"
      by (rule sort_insert_skip)
    moreover have "\<forall>z\<in>set ?U. SortCompare ?f x z \<le> 0"
      using True by (auto simp: date_compare_undated_undated)
    then have "sort_insert ?f x ?U = x # ?U"
      by (rule sort_insert_front)
    ultimately show ?thesis
      using True IH by (simp add: array_sort_Cons del: compareTodos.simps)
  next
    case False
    have "\<forall>u\<in>set ?U. SortCompare ?f x u \<le> 0"
      using False by (auto simp: date_compare_dated_undated)
    then have "sort_insert ?f x (?D @ ?U) = sort_insert ?f x ?D @ ?U"
      by (rule sort_insert_prefix)
    then show ?thesis
      using False IH by (simp add: array_sort_Cons del: compareTodos.simps)
  qed
qed

lemma sorted_dated:
  assumes "\<forall>todo\<in>set xs. dueDate todo \<noteq> [] \<and> g (dueDate todo) \<noteq> None"
  shows "sorted_wrt (\<lambda>a b. \<exists>ta tb. g (dueDate a) = Some ta \<and> g (dueDate b) = Some tb \<and> ta \<le> tb)
           (array_sort (compareTodos g l SortDate) xs)"
proof -
  let ?f = "compareTodos g l SortDate"
  let ?A = "{todo. dueDate todo \<noteq> [] \<and> g (dueDate todo) \<noteq> None}"
  have cmp: "SortCompare ?f a b = the (g (dueDate a)) - the (g (dueDate b))"
    if "a \<in> ?A" "b \<in> ?A" for a b
    using that by (auto simp: date_compare_dated_dated)
  have "sorted_wrt (\<lambda>a b. SortCompare ?f a b \<le> 0) (array_sort ?f xs)"
  proof (rule sorted_array_sort [where A = ?A])
    show "SortCompare ?f a b \<le> 0 \<or> SortCompare ?f b a \<le> 0" if "a \<in> ?A" "b \<in> ?A" for a b
      using cmp [OF that] cmp [OF that(2) that(1)] by linarith
    show "SortCompare ?f a c \<le> 0"
      if "a \<in> ?A" "b \<in> ?A" "c \<in> ?A" "SortCompare ?f a b \<le> 0" "SortCompare ?f b c \<le> 0"
      for a b c
      using cmp [OF that(1) that(2)] cmp [OF that(2) that(3)] cmp [OF that(1) that(3)] that(4,5)
      by linarith
    show "set xs \<subseteq> ?A" using assms by auto
  qed
  then have srt: "sorted_wrt (\<lambda>a b. SortCompare ?f a b \<le> 0) (array_sort ?f xs)" .
  have rel: "\<exists>ta tb. g (dueDate a) = Some ta \<and> g (dueDate b) = Some tb \<and> ta \<le> tb"
    if "a \<in> set (array_sort ?f xs)" "b \<in> set (array_sort ?f xs)" "SortCompare ?f a b \<le> 0"
    for a b
  proof -
    have "a \<in> ?A" "b \<in> ?A" using that(1,2) assms by (auto simp: set_array_sort)
    then show ?thesis using cmp [of a b] that(3) by auto
  qed
  show ?thesis
    by (rule sorted_wrt_mono_rel [OF rel srt])
qed

lemma set_status_filter: "set (status_filter f ts) \<subseteq> set ts"
  by (auto simp: status_filter_def)

lemma set_category_filter: "set (category_filter cf ts) \<subseteq> set ts"
  by (auto simp: category_filter_def)

text \<open>
  Counterexample to C5 as stated: the due date of the second task is a string
  that is no date. Every comparison with that task gives NaN, which counts as
  0, so each task compares equal to its neighbour and the sort leaves the
  array as it is (insertion finds nothing to move; an engine that first looks
  for an ascending run finds the whole array to be one). The task due on
  2024-01-10 stays ahead of the task due on 2024-01-05.
\<close>

theorem sort_by_date_counterexample:
  "map dueDate unparsable_todos =
     [ascii ''2024-01-10'', ascii ''not-a-date'', ascii ''2024-01-05''] \<and>
   scenario_getTime (ascii ''2024-01-10'') = Some 1704844800000 \<and>
   scenario_getTime (ascii ''not-a-date'') = None \<and>
   scenario_getTime (ascii ''2024-01-05'') = Some 1704412800000 \<and>
   map dueDate (filteredAndSortedTodos scenario_getTime flat_localeCompare unparsable_todos
      FilterAll (ascii ''all'') SortDate) =
     [ascii ''2024-01-10'', ascii ''not-a-date'', ascii ''2024-01-05'']"
  by (simp add: filteredAndSortedTodos_def category_filter_def status_filter_def array_sort_def
      unparsable_todos_def scenario_getTime_def SortCompare_def ascii_def)

text \<open>
  Claim C5, amended. For a collection whose non-empty due dates are all dates,
  the view sorted by \<open>date\<close> is a list of the tasks that have a due date, in
  non-decreasing order of their timestamps, followed by the tasks without a due
  date in the order they have in the filtered collection.
\<close>

theorem sort_by_date:
  assumes "\<forall>todo\<in>set ts. dueDate todo \<noteq> [] \<longrightarrow> getTime (dueDate todo) \<noteq> None"
  shows "\<exists>dated.
     filteredAndSortedTodos getTime localeCompare ts f cf SortDate =
       dated @ filter (\<lambda>todo. dueDate todo = []) (category_filter cf (status_filter f ts)) \<and>
     list_all (\<lambda>todo. dueDate todo \<noteq> []) dated \<and>
     mset dated =
       mset (filter (\<lambda>todo. dueDate todo \<noteq> []) (category_filter cf (status_filter f ts))) \<and>
     sorted_wrt (\<lambda>a b. \<exists>ta tb. getTime (dueDate a) = Some ta \<and>
                         getTime (dueDate b) = Some tb \<and> ta \<le> tb) dated"
proof -
  let ?xs = "category_filter cf (status_filter f ts)"
  let ?c = "compareTodos getTime localeCompare SortDate"
  let ?dated = "array_sort ?c (filter (\<lambda>todo. dueDate todo \<noteq> []) ?xs)"
  have sub: "set ?xs \<subseteq> set ts"
    using set_status_filter set_category_filter by blast
  have split: "filteredAndSortedTodos getTime localeCompare ts f cf SortDate =
      ?dated @ filter (\<lambda>todo. dueDate todo = []) ?xs"
    unfolding filteredAndSortedTodos_def by (rule sort_date_split)
  have perm: "mset ?dated = mset (filter (\<lambda>todo. dueDate todo \<noteq> []) ?xs)"
    by (rule mset_array_sort)
  have all_dated: "list_all (\<lambda>todo. dueDate todo \<noteq> []) ?dated"
    by (simp add: list_all_iff set_array_sort)
  have "\<forall>todo\<in>set (filter (\<lambda>todo. dueDate todo \<noteq> []) ?xs).
          dueDate todo \<noteq> [] \<and> getTime (dueDate todo) \<noteq> None"
    using assms sub by auto
  then have ordered: "sorted_wrt (\<lambda>a b. \<exists>ta tb. getTime (dueDate a) = Some ta \<and>
                        getTime (dueDate b) = Some tb \<and> ta \<le> tb) ?dated"
    by (rule sorted_dated)
  show ?thesis
    using split all_dated perm ordered by blast
qed

text \<open>
  The non-empty due dates of the scenario of the specification are dates; its
  view by date is Review PR, Finish report, Buy milk.
\<close>

theorem sort_by_date_witness:
  "list_all (\<lambda>todo. dueDate todo = [] \<or> scenario_getTime (dueDate todo) \<noteq> None)
     scenario_todos \<and>
   (\<exists>dated.
      filteredAndSortedTodos scenario_getTime (\<lambda>a b. 0) scenario_todos FilterAll
        (ascii ''all'') SortDate =
        dated @ filter (\<lambda>todo. dueDate todo = [])
                  (category_filter (ascii ''all'') (status_filter FilterAll scenario_todos)) \<and>
      list_all (\<lambda>todo. dueDate todo \<noteq> []) dated \<and>
      mset dated =
        mset (filter (\<lambda>todo. dueDate todo \<noteq> [])
                (category_filter (ascii ''all'') (status_filter FilterAll scenario_todos))) \<and>
      sorted_wrt (\<lambda>a b. \<exists>ta tb. scenario_getTime (dueDate a) = Some ta \<and>
                          scenario_getTime (dueDate b) = Some tb \<and> ta \<le> tb) dated) \<and>
   map text' (filteredAndSortedTodos scenario_getTime (\<lambda>a b. 0) scenario_todos FilterAll
      (ascii ''all'') SortDate) =
     [ascii ''Review PR'', ascii ''Finish report'', ascii ''Buy milk'']"
proof -
  have h: "\<forall>todo\<in>set scenario_todos. dueDate todo \<noteq> [] \<longrightarrow>
      scenario_getTime (dueDate todo) \<noteq> None"
    by (simp add: scenario_todos_def scenario_getTime_def ascii_def)
  have l: "list_all (\<lambda>todo. dueDate todo = [] \<or> scenario_getTime (dueDate todo) \<noteq> None)
     scenario_todos"
    by (simp add: scenario_todos_def scenario_getTime_def ascii_def)
  show ?thesis
    using l scenario_by_date
      sort_by_date [OF h, of "\<lambda>a b. 0" FilterAll "ascii ''all''"]
    by blast
qed


subsection \<open>Filtering\<close>

lemma mset_status_filter:
  "mset (status_filter f ts) =
     filter_mset (\<lambda>todo. f = FilterAll \<or> f = FilterCompleted \<and> completed todo \<or>
                         f = FilterPending \<and> \<not> completed todo) (mset ts)"
  by (cases f) (simp_all add: status_filter_def)

lemma mset_category_filter:
  "mset (category_filter cf ts) =
     filter_mset (\<lambda>todo. cf = ascii ''all'' \<or> category todo = cf) (mset ts)"
  by (simp add: category_filter_def)

lemma mset_view:
  "mset (filteredAndSortedTodos g l ts f cf sb) =
     filter_mset (\<lambda>todo. (f = FilterAll \<or> f = FilterCompleted \<and> completed todo \<or>
                          f = FilterPending \<and> \<not> completed todo) \<and>
                         (cf = ascii ''all'' \<or> category todo = cf)) (mset ts)"
  by (simp add: filteredAndSortedTodos_def mset_array_sort mset_category_filter
      mset_status_filter filter_filter_mset conj_commute)

text \<open>
  Claim C7. A task is in the view as often as it is in the collection when it
  passes the status predicate and the category predicate (\<open>all\<close> passing every
  task), and not at all otherwise. With the category filter \<open>all\<close>, the
  \<open>completed\<close> view and the \<open>pending\<close> view are disjoint and together hold the
  tasks of the collection.
\<close>

theorem filter_conjunction:
  "mset (filteredAndSortedTodos g l ts f cf sb) =
     filter_mset (\<lambda>todo. (f = FilterAll \<or> f = FilterCompleted \<and> completed todo \<or>
                          f = FilterPending \<and> \<not> completed todo) \<and>
                         (cf = ascii ''all'' \<or> category todo = cf)) (mset ts) \<and>
   set (filteredAndSortedTodos g l ts FilterCompleted (ascii ''all'') sb) \<inter>
     set (filteredAndSortedTodos g l ts FilterPending (ascii ''all'') sb) = {} \<and>
   set (filteredAndSortedTodos g l ts FilterCompleted (ascii ''all'') sb) \<union>
     set (filteredAndSortedTodos g l ts FilterPending (ascii ''all'') sb) = set ts \<and>
   mset (filteredAndSortedTodos g l ts FilterCompleted (ascii ''all'') sb) +
     mset (filteredAndSortedTodos g l ts FilterPending (ascii ''all'') sb) = mset ts \<and>
   mset (filteredAndSortedTodos g l ts FilterAll (ascii ''all'') sb) = mset ts"
proof -
  have c: "set (filteredAndSortedTodos g l ts FilterCompleted (ascii ''all'') sb) =
      {todo \<in> set ts. completed todo}"
    by (simp add: filteredAndSortedTodos_def set_array_sort category_filter_def status_filter_def)
  have p: "set (filteredAndSortedTodos g l ts FilterPending (ascii ''all'') sb) =
      {todo \<in> set ts. \<not> completed todo}"
    by (simp add: filteredAndSortedTodos_def set_array_sort category_filter_def status_filter_def)
  have m: "mset (filteredAndSortedTodos g l ts FilterCompleted (ascii ''all'') sb) +
     mset (filteredAndSortedTodos g l ts FilterPending (ascii ''all'') sb) = mset ts"
    by (simp add: filteredAndSortedTodos_def mset_array_sort category_filter_def status_filter_def)
  have a: "mset (filteredAndSortedTodos g l ts FilterAll (ascii ''all'') sb) = mset ts"
    by (simp add: filteredAndSortedTodos_def mset_array_sort category_filter_def status_filter_def)
  show ?thesis
    unfolding c p using m a mset_view [of g l ts f cf sb] by auto
qed


subsection \<open>The source array\<close>

text \<open>
  Claim C9. Computing the view of the array at \<open>todos_ref\<close> returns a different
  array, which holds the filtered collection sorted (the filters first, the sort
  on their result), and leaves the array at \<open>todos_ref\<close>, like every array that
  existed before, with the elements and the order it had.
\<close>

theorem view_leaves_source:
  assumes "arrays h todos_ref = Some ts" and "todos_ref < fresh h"
  shows "\<exists>r h'.
    filteredAndSortedTodos_store getTime localeCompare todos_ref f cf sb h = Some (r, h') \<and>
    r \<noteq> todos_ref \<and>
    arrays h' todos_ref = Some ts \<and>
    arrays h' r = Some (array_sort (compareTodos getTime localeCompare sb)
                          (category_filter cf (status_filter f ts))) \<and>
    arrays h' r = Some (filteredAndSortedTodos getTime localeCompare ts f cf sb) \<and>
    (\<forall>a<fresh h. arrays h' a = arrays h a)"
  using assms
  by (auto simp add: filteredAndSortedTodos_store_def filteredAndSortedTodos_def
      spread_copy_def filter_alloc_def sort_in_place_def alloc_def
      category_filter_def status_filter_def)

text \<open>
  The hypotheses of claim C9 hold for the scenario store.
\<close>

theorem view_leaves_source_witness:
  "arrays scenario_store 0 = Some scenario_todos \<and> 0 < fresh scenario_store \<and>
   (\<exists>r h'.
      filteredAndSortedTodos_store scenario_getTime (\<lambda>a b. 0) 0 FilterPending (ascii ''all'')
        SortDate scenario_store = Some (r, h') \<and>
      r \<noteq> 0 \<and>
      arrays h' 0 = Some scenario_todos \<and>
      arrays h' r = Some (array_sort (compareTodos scenario_getTime (\<lambda>a b. 0) SortDate)
                            (category_filter (ascii ''all'')
                               (status_filter FilterPending scenario_todos))) \<and>
      arrays h' r = Some (filteredAndSortedTodos scenario_getTime (\<lambda>a b. 0) scenario_todos
                            FilterPending (ascii ''all'') SortDate) \<and>
      (\<forall>a<fresh scenario_store. arrays h' a = arrays scenario_store a))"
proof -
  have a: "arrays scenario_store 0 = Some scenario_todos" and b: "0 < fresh scenario_store"
    by (simp_all add: scenario_store_def)
  show ?thesis
    using a b view_leaves_source [OF a b, of scenario_getTime "\<lambda>a b. 0" FilterPending
        "ascii ''all''" SortDate]
    by simp
qed


subsection \<open>Per-category statistics\<close>

lemma initial_stats_keys: "map fst initial_stats = categoryValues"
  by (simp add: initial_stats_def categoryValues_def comp_def)

lemma distinct_categoryValues: "distinct categoryValues"
  by (simp add: categoryValues_def categoryOptions_def)

lemma initial_sums: "total_sum initial_stats = 0" "completed_sum initial_stats = 0"
  by (simp_all add: total_sum_def completed_sum_def initial_stats_def categoryOptions_def)

text \<open>Replacing the record of one key of a dictionary with distinct keys.\<close>

lemma replace_entry:
  assumes "distinct (map fst stats)" and "map_of stats c = Some r"
  shows "map fst (map (\<lambda>(k, v). if k = c then (k, w) else (k, v)) stats) = map fst stats"
    and "total_sum (map (\<lambda>(k, v). if k = c then (k, w) else (k, v)) stats) + total' r =
         total_sum stats + total' w"
    and "completed_sum (map (\<lambda>(k, v). if k = c then (k, w) else (k, v)) stats) + completed' r =
         completed_sum stats + completed' w"
  using assms
proof (induction stats)
  case Nil
  {
    case 1 then show ?case by simp
  next
    case 2 then show ?case by simp
  next
    case 3 then show ?case by simp
  }
next
  case (Cons e stats)
  obtain k v where e: "e = (k, v)" by (cases e)
  have absent: "map (\<lambda>(k, v). if k = c then (k, w) else (k, v)) stats = stats" if "c \<notin> fst ` set stats"
    using that by (induction stats) auto
  {
    case 1 then show ?case by (auto simp: e)
  next
    case 2
    show ?case
    proof (cases "k = c")
      case True
      then have "c \<notin> fst ` set stats" "r = v" using 2 e by auto
      then show ?thesis using True absent by (simp add: e total_sum_def)
    next
      case False
      then have "map_of stats c = Some r" "distinct (map fst stats)" using 2 e by auto
      then show ?thesis using False Cons.IH(2) by (simp add: e total_sum_def)
    qed
  next
    case 3
    show ?case
    proof (cases "k = c")
      case True
      then have "c \<notin> fst ` set stats" "r = v" using 3 e by auto
      then show ?thesis using True absent by (simp add: e completed_sum_def)
    next
      case False
      then have "map_of stats c = Some r" "distinct (map fst stats)" using 3 e by auto
      then show ?thesis using False Cons.IH(3) by (simp add: e completed_sum_def)
    qed
  }
qed

lemma count_todo_own:
  assumes "distinct (map fst stats)" and "category todo \<in> set (map fst stats)"
  shows "\<exists>stats'. count_todo todo stats = Inr stats' \<and> map fst stats' = map fst stats \<and>
           total_sum stats' = total_sum stats + 1 \<and>
           completed_sum stats' = completed_sum stats + (if completed todo then 1 else 0)"
proof -
  obtain r where r: "map_of stats (category todo) = Some r"
    using assms(2) by (metis map_of_eq_None_iff not_None_eq set_map)
  let ?w = "\<lparr>total' = total' r + 1,
             completed' = (if completed todo then completed' r + 1 else completed' r)\<rparr>"
  let ?s = "map (\<lambda>(k, v). if k = category todo then (k, ?w) else (k, v)) stats"
  have "count_todo todo stats = Inr ?s"
    using r by (simp add: count_todo_def get_property_def)
  moreover have "map fst ?s = map fst stats"
    by (rule replace_entry(1) [OF assms(1) r])
  moreover have "total_sum ?s = total_sum stats + 1"
    using replace_entry(2) [OF assms(1) r, of ?w] by simp
  moreover have "completed_sum ?s = completed_sum stats + (if completed todo then 1 else 0)"
    using replace_entry(3) [OF assms(1) r, of ?w] by (cases "completed todo") simp_all
  ultimately show ?thesis by blast
qed

lemma count_todo_missing:
  assumes "category todo \<notin> set (map fst stats)"
  shows "count_todo todo stats = Inl TypeError \<or> count_todo todo stats = Inr stats"
proof -
  have "map_of stats (category todo) = None"
    using assms by (simp add: map_of_eq_None_iff)
  then show ?thesis by (simp add: count_todo_def get_property_def)
qed

lemma forEach_count_sums:
  assumes "distinct (map fst stats)" and "forEach_count ts stats = Inr stats'"
  shows "map fst stats' = map fst stats \<and>
         total_sum stats' =
           total_sum stats + length (filter (\<lambda>todo. category todo \<in> set (map fst stats)) ts) \<and>
         completed_sum stats' =
           completed_sum stats +
           length (filter (\<lambda>todo. completed todo \<and> category todo \<in> set (map fst stats)) ts)"
  using assms
proof (induction ts arbitrary: stats)
  case Nil
  then show ?case by simp
next
  case (Cons todo ts)
  show ?case
  proof (cases "category todo \<in> set (map fst stats)")
    case True
    from count_todo_own [OF Cons.prems(1) True]
    obtain s1 where s1: "count_todo todo stats = Inr s1" "map fst s1 = map fst stats"
      "total_sum s1 = total_sum stats + 1"
      "completed_sum s1 = completed_sum stats + (if completed todo then 1 else 0)"
      by blast
    have "forEach_count ts s1 = Inr stats'" using Cons.prems(2) s1(1) by simp
    moreover have "distinct (map fst s1)" using s1(2) Cons.prems(1) by simp
    ultimately have "map fst stats' = map fst s1 \<and>
         total_sum stats' =
           total_sum s1 + length (filter (\<lambda>todo. category todo \<in> set (map fst s1)) ts) \<and>
         completed_sum stats' =
           completed_sum s1 +
           length (filter (\<lambda>todo. completed todo \<and> category todo \<in> set (map fst s1)) ts)"
      using Cons.IH by blast
    then show ?thesis using s1 True by simp
  next
    case False
    have "count_todo todo stats = Inr stats"
      using count_todo_missing [OF False] Cons.prems(2) by auto
    then have "forEach_count ts stats = Inr stats'" using Cons.prems(2) by simp
    then show ?thesis using Cons.IH [OF Cons.prems(1)] False by simp
  qed
qed

lemma forEach_count_total:
  assumes "distinct (map fst stats)" and "\<forall>todo\<in>set ts. category todo \<in> set (map fst stats)"
  shows "\<exists>stats'. forEach_count ts stats = Inr stats'"
  using assms
proof (induction ts arbitrary: stats)
  case Nil
  then show ?case by simp
next
  case (Cons todo ts)
  from count_todo_own [of stats todo] Cons.prems
  obtain s1 where s1: "count_todo todo stats = Inr s1" "map fst s1 = map fst stats"
    by auto
  then have "\<exists>stats'. forEach_count ts s1 = Inr stats'"
    using Cons.IH [of s1] Cons.prems by simp
  then show ?case using s1(1) by simp
qed

lemma filter_all_length: "length (filter P xs) = length xs \<longleftrightarrow> (\<forall>x\<in>set xs. P x)"
  by (metis filter_True length_filter_less less_irrefl)

text \<open>
  Claim C10. \<open>categoryStats\<close> returns statistics that account for every task
  exactly when every task's category is one of the four options; then the
  entries are those of the four options, the totals add up to the number of
  tasks and the completed counters add up to the number of completed tasks. For
  the scenario collection followed by a task of category \<open>family\<close> the
  computation reads a record that does not exist and throws.
\<close>

theorem categoryStats_defined:
  "((\<forall>todo\<in>set ts. category todo \<in> set categoryValues) \<longleftrightarrow>
      (\<exists>stats. categoryStats ts = Inr stats \<and> total_sum stats = length ts)) \<and>
   ((\<forall>todo\<in>set ts. category todo \<in> set categoryValues) \<longrightarrow>
      (\<exists>stats. categoryStats ts = Inr stats \<and> map fst stats = categoryValues \<and>
         total_sum stats = length ts \<and> completed_sum stats = completedCount ts)) \<and>
   category stray_todo \<notin> set categoryValues \<and>
   categoryStats (scenario_todos @ [stray_todo]) = Inl TypeError"
proof -
  have d: "distinct (map fst initial_stats)"
    by (simp add: initial_stats_keys distinct_categoryValues)
  have sums: "map fst stats = categoryValues \<and>
      total_sum stats = length (filter (\<lambda>todo. category todo \<in> set categoryValues) ts) \<and>
      completed_sum stats =
        length (filter (\<lambda>todo. completed todo \<and> category todo \<in> set categoryValues) ts)"
    if "categoryStats ts = Inr stats" for stats
    using forEach_count_sums [OF d, of ts stats] that
    by (simp add: categoryStats_def initial_stats_keys initial_sums)
  have fwd: "\<exists>stats. categoryStats ts = Inr stats \<and> map fst stats = categoryValues \<and>
         total_sum stats = length ts \<and> completed_sum stats = completedCount ts"
    if all: "\<forall>todo\<in>set ts. category todo \<in> set categoryValues"
  proof -
    obtain stats where s: "categoryStats ts = Inr stats"
      using forEach_count_total [OF d, of ts] all
      by (auto simp: categoryStats_def initial_stats_keys)
    have "filter (\<lambda>todo. category todo \<in> set categoryValues) ts = ts"
      using all by simp
    moreover have "filter (\<lambda>todo. completed todo \<and> category todo \<in> set categoryValues) ts =
        filter (\<lambda>todo. completed todo) ts"
      using all by (auto intro: filter_cong)
    ultimately show ?thesis
      using sums [OF s] s by (simp add: completedCount_def)
  qed
  have bwd: "\<forall>todo\<in>set ts. category todo \<in> set categoryValues"
    if "\<exists>stats. categoryStats ts = Inr stats \<and> total_sum stats = length ts"
    using that sums filter_all_length [of "\<lambda>todo. category todo \<in> set categoryValues" ts]
    by auto
  have stray: "category stray_todo \<notin> set categoryValues"
    by (simp add: stray_todo_def categoryValues_def categoryOptions_def ascii_def)
  have fails: "categoryStats (scenario_todos @ [stray_todo]) = Inl TypeError"
    by (simp add: categoryStats_def count_todo_def get_property_def initial_stats_def
        categoryOptions_def Object_prototype_keys_def scenario_todos_def stray_todo_def ascii_def)
  show ?thesis
    using fwd bwd stray fails by blast
qed

text \<open>The hypotheses of claim C10 hold for the scenario collection.\<close>

theorem categoryStats_defined_witness:
  "list_all (\<lambda>todo. category todo \<in> set categoryValues) scenario_todos \<and>
   (\<exists>stats. categoryStats scenario_todos = Inr stats \<and> total_sum stats = length scenario_todos) \<and>
   (\<exists>stats. categoryStats scenario_todos = Inr stats \<and> map fst stats = categoryValues \<and>
      total_sum stats = length scenario_todos \<and>
      completed_sum stats = completedCount scenario_todos)"
proof -
  have h: "\<forall>todo\<in>set scenario_todos. category todo \<in> set categoryValues"
    by (simp add: scenario_todos_def categoryValues_def categoryOptions_def)
  have l: "list_all (\<lambda>todo. category todo \<in> set categoryValues) scenario_todos"
    using h by (simp add: list_all_iff)
  show ?thesis
    using h l categoryStats_defined [of scenario_todos] by blast
qed

text \<open>
  The statistics of the scenario collection, and a category that names an
  inherited property: nothing is thrown and the task is counted nowhere.
\<close>

lemma categoryStats_scenario:
  "categoryStats scenario_todos =
     Inr [([0xC5C5, 0xBB34], \<lparr>total' = 2, completed' = 1\<rparr>),
          ([0xAC1C, 0xC778], \<lparr>total' = 1, completed' = 0\<rparr>),
          ([0xD559, 0xC2B5], \<lparr>total' = 0, completed' = 0\<rparr>),
          ([0xAE30, 0xD0C0], \<lparr>total' = 0, completed' = 0\<rparr>)]"
  by (simp add: categoryStats_def count_todo_def get_property_def initial_stats_def
      categoryOptions_def scenario_todos_def ascii_def)

lemma categoryStats_inherited_key:
  "categoryStats [stray_todo\<lparr>category := ascii ''constructor''\<rparr>] = Inr initial_stats"
  by (simp add: categoryStats_def count_todo_def get_property_def initial_stats_def
      categoryOptions_def Object_prototype_keys_def stray_todo_def ascii_def)


section \<open>Completion percentage\<close>



















end
